theory Spec2Isabelle
  imports Complex_Main
begin

section \<open>Python values, strings and exceptions\<close>

text \<open>
  Exceptions of the Python source are values: every function that can raise returns
  \<open>error + 'a\<close>, with \<open>Inl\<close> carrying the exception.  \<open>DbError\<close> stands for any
  exception raised by the MySQL or ClickHouse driver.
\<close>

datatype error =
    DbError string
  | AttributeError string
  | IndexError string
  | ZeroDivisionError string

text \<open>\<open>str(e)\<close>: the message of an exception.\<close>

fun str_of_error :: "error \<Rightarrow> string" where
  "str_of_error (DbError m) = m"
| "str_of_error (AttributeError m) = m"
| "str_of_error (IndexError m) = m"
| "str_of_error (ZeroDivisionError m) = m"

text \<open>\<open>xs[i]\<close> for a non-negative index: \<open>IndexError\<close> when out of range.\<close>

definition py_index :: "'a list \<Rightarrow> nat \<Rightarrow> error + 'a" where
  "py_index xs i = (if i < length xs then Inr (xs ! i) else Inl (IndexError ''index out of range''))"

text \<open>\<open>s.split(c)\<close> for a one-character separator: never empty, \<open>''''.split(c) = ['''']\<close>.\<close>

fun split_on :: "char \<Rightarrow> string \<Rightarrow> string list" where
  "split_on c [] = [[]]"
| "split_on c (x # xs) =
     (if x = c then [] # split_on c xs
      else (case split_on c xs of
              [] \<Rightarrow> [[x]]
            | p # ps \<Rightarrow> (x # p) # ps))"

text \<open>\<open>s.lower()\<close> on the ASCII letters (strings are byte strings here).\<close>

definition char_lower :: "char \<Rightarrow> char" where
  "char_lower c =
     (case map_of (zip ''ABCDEFGHIJKLMNOPQRSTUVWXYZ'' ''abcdefghijklmnopqrstuvwxyz'') c of
        None \<Rightarrow> c
      | Some l \<Rightarrow> l)"

definition str_lower :: "string \<Rightarrow> string" where
  "str_lower s = map char_lower s"

text \<open>\<open>s.startswith(p)\<close>.\<close>

fun startswith :: "string \<Rightarrow> string \<Rightarrow> bool" where
  "startswith s [] = True"
| "startswith [] (p # ps) = False"
| "startswith (x # xs) (p # ps) = (x = p \<and> startswith xs ps)"

text \<open>\<open>sub in s\<close> on strings: \<open>sub\<close> occurs as a contiguous substring of \<open>s\<close>.\<close>

fun py_in :: "string \<Rightarrow> string \<Rightarrow> bool" where
  "py_in sub [] = (sub = [])"
| "py_in sub (x # xs) = (startswith (x # xs) sub \<or> py_in sub xs)"

section \<open>TypeMapper: \<open>convert_mysql_type_to_clickhouse\<close>\<close>

definition TYPE_MAPPING :: "(string \<times> string) list" where
  "TYPE_MAPPING =
    [(''tinyint'', ''Int8''),
     (''smallint'', ''Int16''),
     (''mediumint'', ''Int32''),
     (''int'', ''Int32''),
     (''integer'', ''Int32''),
     (''bigint'', ''Int64''),
     (''float'', ''Float32''),
     (''double'', ''Float64''),
     (''decimal'', ''Decimal''),
     (''char'', ''String''),
     (''varchar'', ''String''),
     (''text'', ''String''),
     (''tinytext'', ''String''),
     (''mediumtext'', ''String''),
     (''longtext'', ''String''),
     (''date'', ''Date''),
     (''datetime'', ''DateTime''),
     (''timestamp'', ''DateTime''),
     (''time'', ''String''),
     (''year'', ''Int16''),
     (''blob'', ''String''),
     (''tinyblob'', ''String''),
     (''mediumblob'', ''String''),
     (''longblob'', ''String''),
     (''json'', ''String''),
     (''enum'', ''String''),
     (''set'', ''String'')]"

text \<open>\<open>TYPE_MAPPING.get(base_type, 'String')\<close>.\<close>

definition type_mapping_get :: "string \<Rightarrow> string" where
  "type_mapping_get base_type =
     (case map_of TYPE_MAPPING base_type of None \<Rightarrow> ''String'' | Some t \<Rightarrow> t)"

text \<open>
  The two subscripts \<open>split('(')[0]\<close>, \<open>split('(')[1]\<close> and \<open>split(')')[0]\<close> are the
  only places of the function that can raise; they are kept as \<open>py_index\<close>.
\<close>

definition convert_mysql_type_to_clickhouse :: "string \<Rightarrow> string \<Rightarrow> error + string" where
  "convert_mysql_type_to_clickhouse mysql_type is_nullable =
     (case py_index (split_on CHR ''('' mysql_type) 0 of
        Inl e \<Rightarrow> Inl e
      | Inr b \<Rightarrow>
          let base_type = str_lower b;
              is_unsigned = py_in ''unsigned'' (str_lower mysql_type);
              ch_type = type_mapping_get base_type;
              ch_type1 = (if is_unsigned \<and> startswith ch_type ''Int'' then ''U'' @ ch_type else ch_type)
          in (case (if base_type = ''decimal'' \<and> CHR ''('' \<in> set mysql_type
                    then (case py_index (split_on CHR ''('' mysql_type) 1 of
                            Inl e \<Rightarrow> Inl e
                          | Inr rest \<Rightarrow>
                              (case py_index (split_on CHR '')'' rest) 0 of
                                 Inl e \<Rightarrow> Inl e
                               | Inr precision \<Rightarrow> Inr (''Decimal('' @ precision @ '')'')))
                    else Inr ch_type1) of
                Inl e \<Rightarrow> Inl e
              | Inr ch_type2 \<Rightarrow>
                  Inr (if is_nullable = ''YES'' then ''Nullable('' @ ch_type2 @ '')'' else ch_type2)))"

section \<open>Row values and \<open>strftime\<close>\<close>

text \<open>
  The values a pymysql cursor hands out.  A \<open>DATETIME\<close>/\<open>TIMESTAMP\<close> column arrives as
  \<open>datetime.datetime\<close>, a \<open>DATE\<close> column as \<open>datetime.date\<close> and a \<open>TIME\<close> column as
  \<open>datetime.timedelta\<close> (seconds here); \<open>datetime.date\<close> and \<open>datetime.timedelta\<close> are not
  instances of \<open>datetime.datetime\<close>.
\<close>

record py_datetime =
  dt_year :: nat
  dt_month :: nat
  dt_day :: nat
  dt_hour :: nat
  dt_minute :: nat
  dt_second :: nat

datatype val =
    VNone
  | VInt int
  | VStr string
  | VDatetime py_datetime
  | VDate nat nat nat
  | VTimedelta int

definition digit_char :: "nat \<Rightarrow> char" where
  "digit_char d = ''0123456789'' ! (d mod 10)"

text \<open>A natural number in decimal, without padding (C's \<open>%d\<close>).\<close>

fun py_decimal :: "nat \<Rightarrow> string" where
  "py_decimal n = (if n < 10 then [digit_char n] else py_decimal (n div 10) @ [digit_char n])"

declare py_decimal.simps [simp del]

text \<open>A natural number in decimal, with a leading zero when it has one digit (C's \<open>%02d\<close>).\<close>

definition pad2 :: "nat \<Rightarrow> string" where
  "pad2 n = (if n < 10 then CHR ''0'' # py_decimal n else py_decimal n)"

text \<open>
  \<open>value.strftime('%Y-%m-%d %H:%M:%S')\<close>.  Python hands the format to the C library of the
  platform, and \<open>%Y\<close> there is the year in decimal without padding: four digits for every
  year from 1000 on, \<open>999\<close> for the year 999.  Month, day, hour, minute and second are
  written with two digits.  (Python builds a \<open>datetime\<close> only with a year from 1 to 9999,
  a month from 1 to 12, and so on; the function is defined on all field values.)
\<close>

definition strftime :: "py_datetime \<Rightarrow> string" where
  "strftime d =
     py_decimal (dt_year d) @ ''-'' @ pad2 (dt_month d) @ ''-'' @ pad2 (dt_day d) @ '' '' @
     pad2 (dt_hour d) @ '':'' @ pad2 (dt_minute d) @ '':'' @ pad2 (dt_second d)"

text \<open>
  The body of the inner \<open>for\<close> loop of \<open>migrate_data\<close> for one value:
  \<open>if isinstance(value, datetime): value = value.strftime(...)\<close>, where \<open>datetime\<close> is the
  class \<open>datetime.datetime\<close> the module imports.
\<close>

fun normalize_value :: "val \<Rightarrow> val" where
  "normalize_value (VDatetime d) = VStr (strftime d)"
| "normalize_value v = v"

text \<open>
  \<open>for i, col_name in enumerate(column_names): value = row[i]; ...; row_data.append(value)\<close>,
  started at index \<open>i\<close>.  \<open>row[i]\<close> raises \<open>IndexError\<close> on a row shorter than the column list.
\<close>

fun convert_row_from :: "nat \<Rightarrow> string list \<Rightarrow> val list \<Rightarrow> error + val list" where
  "convert_row_from i [] row = Inr []"
| "convert_row_from i (col_name # cs) row =
     (case py_index row i of
        Inl e \<Rightarrow> Inl e
      | Inr v \<Rightarrow>
          (case convert_row_from (Suc i) cs row of
             Inl e \<Rightarrow> Inl e
           | Inr row_data \<Rightarrow> Inr (normalize_value v # row_data)))"

definition convert_row :: "string list \<Rightarrow> val list \<Rightarrow> error + val list" where
  "convert_row column_names row = convert_row_from 0 column_names row"

text \<open>The temporal kinds of value: date-, time- and datetime-kind.\<close>

fun is_temporal :: "val \<Rightarrow> bool" where
  "is_temporal (VDatetime d) = True"
| "is_temporal (VDate y m d) = True"
| "is_temporal (VTimedelta t) = True"
| "is_temporal v = False"

fun is_string :: "val \<Rightarrow> bool" where
  "is_string (VStr s) = True"
| "is_string v = False"

section \<open>The two databases, the clock and the configuration\<close>

text \<open>
  The MySQL side is read-only for the tool: a table has its \<open>DESCRIBE\<close> output, its primary
  key columns in ordinal order and its rows.
\<close>

record column =
  col_Field :: string
  col_Type :: string
  col_Null :: string

record src_table =
  t_columns :: "column list"
  t_primary_keys :: "string list"
  t_rows :: "val list list"

text \<open>
  Every call to a driver can fail for reasons outside the program (a lost connection, a
  rejected statement).  \<open>fails\<close> says which calls do.
\<close>

datatype db_op =
    OpDescribe string
  | OpPrimaryKey string
  | OpDrop string
  | OpCreate string
  | OpCount string
  | OpProbe string
  | OpStream string
  | OpFetch string nat
  | OpInsert string nat
  | OpVerifyCount string
  | OpChCount string

record env =
  mysql_tables :: "string \<rightharpoonup> src_table"
  fails :: "db_op \<Rightarrow> bool"
  clock :: "nat \<Rightarrow> real"

text \<open>
  What the tool changes or consumes outside itself: the ClickHouse tables, the bulk inserts
  issued so far (table, column names, batch), the number of \<open>time.time()\<close> readings taken,
  and the log lines the claims are about.
\<close>

datatype log_event =
    LogEmptySkip
  | LogVerify int int
  | LogVerifyPassed
  | LogVerifyFailed int
  | LogTableFailed string
  | LogInvalidConfig
  | LogNoTables
  | LogFailedTable string string
  | LogCompletedWithFailures nat

record world =
  ch_tables :: "string \<rightharpoonup> val list list"
  inserts :: "(string \<times> string list \<times> val list list) list"
  tick :: nat
  logs :: "log_event list"

text \<open>\<open>time.time()\<close>: the next reading of the clock.\<close>

definition time_time :: "env \<Rightarrow> world \<Rightarrow> real \<times> world" where
  "time_time ev w = (clock ev (tick w), w\<lparr>tick := Suc (tick w)\<rparr>)"

definition log_add :: "log_event \<Rightarrow> world \<Rightarrow> world" where
  "log_add l w = w\<lparr>logs := logs w @ [l]\<rparr>"

record table_config =
  tc_mysql_table :: "string option"
  tc_ch_table :: "string option"
  tc_batch_size :: "int option"
  tc_verify :: "bool option"

text \<open>The configuration with the defaults of the \<open>.get\<close> calls already applied.\<close>

record config =
  tables :: "table_config list"
  default_batch_size :: int
  default_verify :: bool
  drop_table_before_create :: bool
  skip_empty_tables :: bool
  continue_on_error :: bool
  mysql_database :: string
  clickhouse_database :: string

section \<open>SchemaIntrospector and DDLSynthesizer\<close>

definition get_mysql_table_structure :: "env \<Rightarrow> string \<Rightarrow> error + column list" where
  "get_mysql_table_structure ev table_name =
     (if fails ev (OpDescribe table_name) then Inl (DbError ''DESCRIBE failed'')
      else (case mysql_tables ev table_name of
              None \<Rightarrow> Inl (DbError ''Table does not exist'')
            | Some t \<Rightarrow> Inr (t_columns t)))"

definition get_primary_key :: "env \<Rightarrow> string \<Rightarrow> error + string list" where
  "get_primary_key ev table_name =
     (if fails ev (OpPrimaryKey table_name) then Inl (DbError ''KEY_COLUMN_USAGE query failed'')
      else (case mysql_tables ev table_name of
              None \<Rightarrow> Inr []
            | Some t \<Rightarrow> Inr (t_primary_keys t)))"

text \<open>\<open>sep.join(xs)\<close>.\<close>

fun py_join :: "string \<Rightarrow> string list \<Rightarrow> string" where
  "py_join sep [] = []"
| "py_join sep [x] = x"
| "py_join sep (x # y # ys) = x @ sep @ py_join sep (y # ys)"

definition newline :: string where
  "newline = [CHR 0x0A]"

text \<open>The \<open>for col in columns\<close> loop of \<open>generate_clickhouse_ddl\<close>.\<close>

fun column_defs :: "column list \<Rightarrow> error + string list" where
  "column_defs [] = Inr []"
| "column_defs (col # cols) =
     (case convert_mysql_type_to_clickhouse (col_Type col) (col_Null col) of
        Inl e \<Rightarrow> Inl e
      | Inr ch_type \<Rightarrow>
          (case column_defs cols of
             Inl e \<Rightarrow> Inl e
           | Inr defs \<Rightarrow> Inr ((''    `'' @ col_Field col @ ''` '' @ ch_type) # defs)))"

definition generate_clickhouse_ddl ::
  "string \<Rightarrow> string \<Rightarrow> column list \<Rightarrow> string list \<Rightarrow> error + string" where
  "generate_clickhouse_ddl mysql_table ch_table cols pks =
     (case column_defs cols of
        Inl e \<Rightarrow> Inl e
      | Inr defs \<Rightarrow>
          let columns_ddl = py_join ('','' @ newline) defs;
              order_by = (if pks \<noteq> [] then py_join '', '' (map (\<lambda>pk. ''`'' @ pk @ ''`'') pks)
                          else ''tuple()'')
          in Inr (newline @ ''CREATE TABLE IF NOT EXISTS `'' @ ch_table @ ''`'' @ newline @
                  ''('' @ newline @ columns_ddl @ newline @ '')'' @ newline @
                  ''ENGINE = MergeTree()'' @ newline @
                  ''ORDER BY ('' @ order_by @ '')'' @ newline @
                  ''SETTINGS index_granularity = 8192'' @ newline))"

section \<open>Statements on the target\<close>

definition drop_table_if_exists ::
  "config \<Rightarrow> env \<Rightarrow> string \<Rightarrow> world \<Rightarrow> (error + unit) \<times> world" where
  "drop_table_if_exists cfg ev table_name w =
     (if \<not> drop_table_before_create cfg then (Inr (), w)
      else if fails ev (OpDrop table_name) then (Inl (DbError ''DROP TABLE failed''), w)
      else (Inr (), w\<lparr>ch_tables := (ch_tables w)(table_name := None)\<rparr>))"

text \<open>
  \<open>create_clickhouse_table(ddl)\<close>; the table the statement names is passed beside it.
  \<open>CREATE TABLE IF NOT EXISTS\<close> leaves an existing table and its rows as they are.
\<close>

definition create_clickhouse_table ::
  "env \<Rightarrow> string \<Rightarrow> string \<Rightarrow> world \<Rightarrow> (error + unit) \<times> world" where
  "create_clickhouse_table ev ch_table ddl w =
     (if fails ev (OpCreate ch_table) then (Inl (DbError ''CREATE TABLE failed''), w)
      else (case ch_tables w ch_table of
              None \<Rightarrow> (Inr (), w\<lparr>ch_tables := (ch_tables w)(ch_table \<mapsto> [])\<rparr>)
            | Some old \<Rightarrow> (Inr (), w)))"

text \<open>\<open>self.ch_client.insert(ch_table, batch_data, column_names=column_names)\<close>.\<close>

definition ch_insert ::
  "env \<Rightarrow> string \<Rightarrow> val list list \<Rightarrow> string list \<Rightarrow> world \<Rightarrow> (error + unit) \<times> world" where
  "ch_insert ev ch_table batch_data column_names w =
     (if fails ev (OpInsert ch_table (length (inserts w))) then (Inl (DbError ''INSERT failed''), w)
      else (case ch_tables w ch_table of
              None \<Rightarrow> (Inl (DbError ''Target table does not exist''), w)
            | Some old \<Rightarrow>
                (Inr (), w\<lparr>ch_tables := (ch_tables w)(ch_table \<mapsto> old @ batch_data),
                           inserts := inserts w @ [(ch_table, column_names, batch_data)]\<rparr>)))"

text \<open>\<open>SELECT COUNT(*) FROM mysql_table\<close> on the source, issued as the call \<open>op\<close>.\<close>

definition mysql_count :: "env \<Rightarrow> db_op \<Rightarrow> string \<Rightarrow> error + nat" where
  "mysql_count ev op table_name =
     (if fails ev op then Inl (DbError ''COUNT failed'')
      else (case mysql_tables ev table_name of
              None \<Rightarrow> Inl (DbError ''Table does not exist'')
            | Some t \<Rightarrow> Inr (length (t_rows t))))"

text \<open>
  \<open>SELECT * FROM mysql_table LIMIT 1\<close> and \<open>fetchone()\<close>: \<open>None\<close> on a table without rows,
  otherwise the first row as a dict, of which only the keys are used.
\<close>

definition mysql_probe :: "env \<Rightarrow> string \<Rightarrow> error + string list option" where
  "mysql_probe ev table_name =
     (if fails ev (OpProbe table_name) then Inl (DbError ''SELECT LIMIT 1 failed'')
      else (case mysql_tables ev table_name of
              None \<Rightarrow> Inl (DbError ''Table does not exist'')
            | Some t \<Rightarrow> Inr (if t_rows t = [] then None else Some (map col_Field (t_columns t)))))"

text \<open>\<open>cursor.execute(SELECT * FROM mysql_table)\<close> on the streaming cursor.\<close>

definition mysql_stream :: "env \<Rightarrow> string \<Rightarrow> error + val list list" where
  "mysql_stream ev table_name =
     (if fails ev (OpStream table_name) then Inl (DbError ''SELECT failed'')
      else (case mysql_tables ev table_name of
              None \<Rightarrow> Inl (DbError ''Table does not exist'')
            | Some t \<Rightarrow> Inr (t_rows t)))"

text \<open>\<open>SELECT COUNT(*) FROM ch_table\<close> on the target.\<close>

definition ch_count :: "env \<Rightarrow> string \<Rightarrow> world \<Rightarrow> error + nat" where
  "ch_count ev ch_table w =
     (if fails ev (OpChCount ch_table) then Inl (DbError ''ClickHouse COUNT failed'')
      else (case ch_tables w ch_table of
              None \<Rightarrow> Inl (DbError ''Target table does not exist'')
            | Some rs \<Rightarrow> Inr (length rs)))"

section \<open>StreamingTransferEngine: \<open>migrate_data\<close>\<close>

text \<open>
  The branch \<open>if not row:\<close> of the loop: the leftover batch is written when it is not empty,
  followed by one clock reading for the final progress line.
\<close>

definition flush_last ::
  "env \<Rightarrow> string \<Rightarrow> string list \<Rightarrow> nat \<Rightarrow> val list list \<Rightarrow> world \<Rightarrow> (error + nat) \<times> world" where
  "flush_last ev ch_table column_names migrated_rows batch_data w =
     (if batch_data \<noteq> [] then
        (case ch_insert ev ch_table batch_data column_names w of
           (Inl e, w1) \<Rightarrow> (Inl e, w1)
         | (Inr u, w1) \<Rightarrow>
             (let (t, w2) = time_time ev w1
              in (Inr (migrated_rows + length batch_data), w2)))
      else (Inr migrated_rows, w))"

text \<open>
  The \<open>while True\<close> loop over the streaming cursor.  The list is what the cursor still has
  to deliver, \<open>i\<close> counts the \<open>fetchone()\<close> calls.  \<open>if not row\<close> holds at the end of the
  stream and also for an empty tuple.  A full batch is written, the clock is read once
  (the progress line it feeds is not modelled) and the batch is emptied.
\<close>

fun stream_loop ::
  "env \<Rightarrow> string \<Rightarrow> string \<Rightarrow> string list \<Rightarrow> int \<Rightarrow> val list list \<Rightarrow> nat \<Rightarrow> nat \<Rightarrow>
   val list list \<Rightarrow> world \<Rightarrow> (error + nat) \<times> world" where
  "stream_loop ev mysql_table ch_table column_names batch_size [] i migrated_rows batch_data w =
     (if fails ev (OpFetch mysql_table i) then (Inl (DbError ''fetchone failed''), w)
      else flush_last ev ch_table column_names migrated_rows batch_data w)"
| "stream_loop ev mysql_table ch_table column_names batch_size (row # cursor) i migrated_rows batch_data w =
     (if fails ev (OpFetch mysql_table i) then (Inl (DbError ''fetchone failed''), w)
      else if row = [] then flush_last ev ch_table column_names migrated_rows batch_data w
      else
        (case convert_row column_names row of
           Inl e \<Rightarrow> (Inl e, w)
         | Inr row_data \<Rightarrow>
             (let batch_data1 = batch_data @ [row_data]
              in if int (length batch_data1) \<ge> batch_size then
                   (case ch_insert ev ch_table batch_data1 column_names w of
                      (Inl e, w1) \<Rightarrow> (Inl e, w1)
                    | (Inr u, w1) \<Rightarrow>
                        (let (current_time, w2) = time_time ev w1
                         in stream_loop ev mysql_table ch_table column_names batch_size cursor (Suc i)
                              (migrated_rows + length batch_data1) [] w2))
                 else stream_loop ev mysql_table ch_table column_names batch_size cursor (Suc i)
                        migrated_rows batch_data1 w)))"

text \<open>
  \<open>migrate_data\<close>.  \<open>total_batches = (total_rows + batch_size - 1) // batch_size\<close> is computed
  for the log only, but divides by \<open>batch_size\<close>; \<open>first_row.keys()\<close> is called on the
  result of \<open>fetchone()\<close>, which is \<open>None\<close> on a table without rows.  Closing the cursors
  (the \<open>finally\<close> clause) has no effect on what is modelled and is left out, as are the
  progress lines.
\<close>

definition migrate_data ::
  "config \<Rightarrow> env \<Rightarrow> string \<Rightarrow> string \<Rightarrow> int \<Rightarrow> world \<Rightarrow> (error + nat \<times> real) \<times> world" where
  "migrate_data cfg ev mysql_table ch_table batch_size w =
     (case mysql_count ev (OpCount mysql_table) mysql_table of
        Inl e \<Rightarrow> (Inl e, w)
      | Inr total_rows \<Rightarrow>
          if total_rows = 0 \<and> skip_empty_tables cfg then (Inr (0, 0), log_add LogEmptySkip w)
          else if batch_size = 0 then (Inl (ZeroDivisionError ''integer division or modulo by zero''), w)
          else
            (case mysql_probe ev mysql_table of
               Inl e \<Rightarrow> (Inl e, w)
             | Inr None \<Rightarrow> (Inl (AttributeError ''NoneType object has no attribute keys''), w)
             | Inr (Some column_names) \<Rightarrow>
                 (case mysql_stream ev mysql_table of
                    Inl e \<Rightarrow> (Inl e, w)
                  | Inr cursor \<Rightarrow>
                      (let (start_time, w1) = time_time ev w
                       in (case stream_loop ev mysql_table ch_table column_names batch_size
                                  cursor 0 0 [] w1 of
                             (Inl e, w2) \<Rightarrow> (Inl e, w2)
                           | (Inr migrated_rows, w2) \<Rightarrow>
                               (let (end_time, w3) = time_time ev w2;
                                    total_time = end_time - start_time;
                                    avg_speed = (if total_time > 0
                                                 then real migrated_rows / total_time else 0)
                                in (Inr (migrated_rows, avg_speed), w3)))))))"

section \<open>VerificationChecker: \<open>verify_migration\<close>\<close>

definition verify_migration ::
  "env \<Rightarrow> string \<Rightarrow> string \<Rightarrow> world \<Rightarrow> (error + bool) \<times> world" where
  "verify_migration ev mysql_table ch_table w =
     (case mysql_count ev (OpVerifyCount mysql_table) mysql_table of
        Inl e \<Rightarrow> (Inl e, w)
      | Inr mysql_cnt \<Rightarrow>
          (case ch_count ev ch_table w of
             Inl e \<Rightarrow> (Inl e, w)
           | Inr ch_cnt \<Rightarrow>
               (let w1 = log_add (LogVerify (int mysql_cnt) (int ch_cnt)) w
                in if mysql_cnt = ch_cnt then (Inr True, log_add LogVerifyPassed w1)
                   else (Inr False,
                         log_add (LogVerifyFailed (abs (int mysql_cnt - int ch_cnt))) w1))))"

section \<open>MigrationOrchestrator: \<open>migrate_table\<close>\<close>

record table_result =
  mysql_table :: string
  ch_table :: string
  rows :: nat
  time_used :: real
  speed :: real
  status :: string
  verified :: bool
  error :: "string option"

text \<open>Steps 1 to 4 of the \<open>try\<close> block: structure, drop, create, transfer.\<close>

definition transfer_steps ::
  "config \<Rightarrow> env \<Rightarrow> string \<Rightarrow> string \<Rightarrow> int \<Rightarrow> world \<Rightarrow> (error + nat \<times> real) \<times> world" where
  "transfer_steps cfg ev mysql_tbl ch_tbl batch_size w =
     (case get_mysql_table_structure ev mysql_tbl of
        Inl e \<Rightarrow> (Inl e, w)
      | Inr cols \<Rightarrow>
          (case get_primary_key ev mysql_tbl of
             Inl e \<Rightarrow> (Inl e, w)
           | Inr pks \<Rightarrow>
               (case drop_table_if_exists cfg ev ch_tbl w of
                  (Inl e, w1) \<Rightarrow> (Inl e, w1)
                | (Inr u, w1) \<Rightarrow>
                    (case generate_clickhouse_ddl mysql_tbl ch_tbl cols pks of
                       Inl e \<Rightarrow> (Inl e, w1)
                     | Inr ddl \<Rightarrow>
                         (case create_clickhouse_table ev ch_tbl ddl w1 of
                            (Inl e, w2) \<Rightarrow> (Inl e, w2)
                          | (Inr u2, w2) \<Rightarrow> migrate_data cfg ev mysql_tbl ch_tbl batch_size w2)))))"

text \<open>
  The \<open>except Exception as e\<close> handler up to its last \<open>if\<close>: the dict as the handler
  leaves it, together with the exception.
\<close>

definition migrate_table_except ::
  "env \<Rightarrow> real \<Rightarrow> error \<Rightarrow> table_result \<Rightarrow> world \<Rightarrow> (error option \<times> table_result) \<times> world" where
  "migrate_table_except ev start_time e table_result w =
     (let (now, w1) = time_time ev w;
          elapsed_time = now - start_time
      in ((Some e, table_result\<lparr>time_used := elapsed_time, error := Some (str_of_error e)\<rparr>),
          log_add (LogTableFailed (str_of_error e)) w1))"

text \<open>
  \<open>migrate_table\<close> without its last decision (re-raise or return): the \<open>table_result\<close> dict
  at the end of the \<open>try\<close> block or of the handler, and the exception caught, if any.
\<close>

definition migrate_table_attempt ::
  "config \<Rightarrow> env \<Rightarrow> string \<Rightarrow> string \<Rightarrow> int option \<Rightarrow> bool option \<Rightarrow> world \<Rightarrow>
   (error option \<times> table_result) \<times> world" where
  "migrate_table_attempt cfg ev mysql_tbl ch_tbl batch_size verify w =
     (let batch_size1 = (case batch_size of None \<Rightarrow> default_batch_size cfg | Some b \<Rightarrow> b);
          verify1 = (case verify of None \<Rightarrow> default_verify cfg | Some v \<Rightarrow> v);
          (start_time, w0) = time_time ev w;
          table_result = \<lparr>mysql_table = mysql_tbl, ch_table = ch_tbl, rows = 0, time_used = 0,
                          speed = 0, status = ''failed'', verified = False, error = None\<rparr>
      in (case transfer_steps cfg ev mysql_tbl ch_tbl batch_size1 w0 of
            (Inl e, w1) \<Rightarrow> migrate_table_except ev start_time e table_result w1
          | (Inr (migrated_rows, avg_speed), w1) \<Rightarrow>
              (let table_result1 = table_result\<lparr>rows := migrated_rows, speed := avg_speed\<rparr>
               in (case (if verify1
                         then (case verify_migration ev mysql_tbl ch_tbl w1 of
                                 (Inl e, w2) \<Rightarrow> (Inl e, w2)
                               | (Inr verified_success, w2) \<Rightarrow>
                                   (Inr (table_result1\<lparr>verified := verified_success\<rparr>), w2))
                         else (Inr table_result1, w1)) of
                     (Inl e, w2) \<Rightarrow> migrate_table_except ev start_time e table_result1 w2
                   | (Inr table_result2, w2) \<Rightarrow>
                       (let (now, w3) = time_time ev w2;
                            elapsed_time = now - start_time
                        in ((None, table_result2\<lparr>time_used := elapsed_time,
                                                  status := ''success''\<rparr>), w3))))))"

text \<open>
  \<open>migrate_table\<close>: a caught exception is raised again unless \<open>continue_on_error\<close> is set,
  in which case the dict is returned.
\<close>

definition migrate_table ::
  "config \<Rightarrow> env \<Rightarrow> string \<Rightarrow> string \<Rightarrow> int option \<Rightarrow> bool option \<Rightarrow> world \<Rightarrow>
   (error + table_result) \<times> world" where
  "migrate_table cfg ev mysql_tbl ch_tbl batch_size verify w =
     (case migrate_table_attempt cfg ev mysql_tbl ch_tbl batch_size verify w of
        ((None, table_result), w1) \<Rightarrow> (Inr table_result, w1)
      | ((Some e, table_result), w1) \<Rightarrow>
          if \<not> continue_on_error cfg then (Inl e, w1) else (Inr table_result, w1))"

section \<open>MigrationOrchestrator: \<open>migrate_all_tables\<close>\<close>

record stats =
  total_tables :: nat
  success_tables :: nat
  failed_tables :: nat
  total_rows :: nat
  total_time :: real
  table_details :: "table_result list"
  avg_speed :: "real option"

text \<open>The dict passed to \<open>notify_failure\<close> (without the traceback text).\<close>

record failure_info =
  failed_table :: string
  error_message :: string
  info_total_tables :: nat
  completed_tables :: nat

text \<open>The calls made on the notifier, in order.\<close>

datatype notification =
    NotifyStart "table_config list" string string
  | NotifySuccess stats
  | NotifyFailure failure_info

record migration =
  world :: world
  migration_stats :: stats
  notifications :: "notification list"

text \<open>\<open>self.migration_stats\<close> as \<open>__init__\<close> sets it; the key \<open>avg_speed\<close> is absent.\<close>

definition init_stats :: stats where
  "init_stats = \<lparr>total_tables = 0, success_tables = 0, failed_tables = 0, total_rows = 0,
                  total_time = 0, table_details = [], avg_speed = None\<rparr>"

definition init_migration :: "world \<Rightarrow> migration" where
  "init_migration w = \<lparr>world = w, migration_stats = init_stats, notifications = []\<rparr>"

text \<open>
  \<open>if not mysql_table or not ch_table\<close> is false: both names are present and not empty.
\<close>

definition valid_names :: "table_config \<Rightarrow> (string \<times> string) option" where
  "valid_names table_config =
     (case tc_mysql_table table_config of
        None \<Rightarrow> None
      | Some mysql_tbl \<Rightarrow>
          (case tc_ch_table table_config of
             None \<Rightarrow> None
           | Some ch_tbl \<Rightarrow> if mysql_tbl = [] \<or> ch_tbl = [] then None else Some (mysql_tbl, ch_tbl)))"

text \<open>
  The \<open>for idx, table_config in enumerate(tables, 1)\<close> loop, from index \<open>idx\<close> on.
  \<open>Inl e\<close>: the loop was left by the \<open>raise\<close> of its handler.
\<close>

fun tables_loop ::
  "config \<Rightarrow> env \<Rightarrow> nat \<Rightarrow> nat \<Rightarrow> table_config list \<Rightarrow> migration \<Rightarrow> (error + unit) \<times> migration" where
  "tables_loop cfg ev total_tbls idx [] m = (Inr (), m)"
| "tables_loop cfg ev total_tbls idx (table_config # rest) m =
     (case valid_names table_config of
        None \<Rightarrow>
          tables_loop cfg ev total_tbls (Suc idx) rest (m\<lparr>world := log_add LogInvalidConfig (world m)\<rparr>)
      | Some (mysql_tbl, ch_tbl) \<Rightarrow>
          (case migrate_table cfg ev mysql_tbl ch_tbl (tc_batch_size table_config)
                  (tc_verify table_config) (world m) of
             (Inr table_result, w1) \<Rightarrow>
               (let st = migration_stats m;
                    st1 = (if status table_result = ''success''
                           then st\<lparr>success_tables := success_tables st + 1\<rparr>
                           else st\<lparr>failed_tables := failed_tables st + 1\<rparr>);
                    st2 = st1\<lparr>total_rows := total_rows st1 + rows table_result,
                              table_details := table_details st1 @ [table_result]\<rparr>
                in tables_loop cfg ev total_tbls (Suc idx) rest (m\<lparr>world := w1, migration_stats := st2\<rparr>))
           | (Inl e, w1) \<Rightarrow>
               (let st = migration_stats m;
                    st1 = st\<lparr>failed_tables := failed_tables st + 1\<rparr>;
                    w2 = log_add (LogFailedTable mysql_tbl (str_of_error e)) w1;
                    m1 = m\<lparr>world := w2, migration_stats := st1,
                            notifications := notifications m @
                              [NotifyFailure \<lparr>failed_table = mysql_tbl,
                                              error_message = str_of_error e,
                                              info_total_tables = total_tbls,
                                              completed_tables = idx - 1\<rparr>]\<rparr>
                in if \<not> continue_on_error cfg then (Inl e, m1)
                   else tables_loop cfg ev total_tbls (Suc idx) rest m1)))"

text \<open>
  \<open>migrate_all_tables\<close> before its loop: \<open>total_tables\<close> is set to the length of the
  configured list, the start notification is sent and the clock is read.
\<close>

definition run_start :: "config \<Rightarrow> env \<Rightarrow> migration \<Rightarrow> real \<times> migration" where
  "run_start cfg ev m =
     (let total_tbls = length (tables cfg);
          m1 = m\<lparr>migration_stats := (migration_stats m)\<lparr>total_tables := total_tbls\<rparr>,
                  notifications := notifications m @
                    [NotifyStart (tables cfg) (mysql_database cfg) (clickhouse_database cfg)]\<rparr>;
          (overall_start_time, w1) = time_time ev (world m1)
      in (overall_start_time, m1\<lparr>world := w1\<rparr>))"

text \<open>
  \<open>migrate_all_tables\<close> after its loop: total time, average speed, and the success
  notification when no table failed.
\<close>

definition run_end :: "env \<Rightarrow> real \<Rightarrow> migration \<Rightarrow> migration" where
  "run_end ev overall_start_time m2 =
     (let (now, w2) = time_time ev (world m2);
          overall_time = now - overall_start_time;
          st = (migration_stats m2)\<lparr>total_time := overall_time\<rparr>;
          st1 = st\<lparr>avg_speed :=
                     Some (if overall_time > 0 \<and> total_rows st > 0
                           then real (total_rows st) / overall_time else 0)\<rparr>
      in if failed_tables st1 = 0
         then m2\<lparr>world := w2, migration_stats := st1,
                 notifications := notifications m2 @ [NotifySuccess st1]\<rparr>
         else m2\<lparr>world := log_add (LogCompletedWithFailures (failed_tables st1)) w2,
                 migration_stats := st1\<rparr>)"

definition migrate_all_tables :: "config \<Rightarrow> env \<Rightarrow> migration \<Rightarrow> (error + unit) \<times> migration" where
  "migrate_all_tables cfg ev m =
     (if tables cfg = [] then (Inr (), m\<lparr>world := log_add LogNoTables (world m)\<rparr>)
      else
        (let (overall_start_time, m1) = run_start cfg ev m
         in (case tables_loop cfg ev (length (tables cfg)) 1 (tables cfg) m1 of
               (Inl e, m2) \<Rightarrow> (Inl e, m2)
             | (Inr u, m2) \<Rightarrow> (Inr (), run_end ev overall_start_time m2))))"

section \<open>Batches, and example databases and runs\<close>

text \<open>
  The batches the design describes: a list cut into pieces of \<open>n\<close> elements, the last
  piece holding what is left.
\<close>

function chunks :: "nat \<Rightarrow> 'a list \<Rightarrow> 'a list list" where
  "chunks n xs = (if n = 0 \<or> xs = [] then [] else take n xs # chunks n (drop n xs))"
  by pat_completeness auto
termination
  by (relation "measure (\<lambda>(n, xs). length xs)") auto

text \<open>The number of tables a run has counted as attempted so far.\<close>

abbreviation attempted :: "migration \<Rightarrow> nat" where
  "attempted m \<equiv> success_tables (migration_stats m) + failed_tables (migration_stats m)"

definition id_column :: column where
  "id_column = \<lparr>col_Field = ''id'', col_Type = ''int(11)'', col_Null = ''NO''\<rparr>"

text \<open>A source table \<open>orders\<close> with one integer column and \<open>n\<close> rows.\<close>

definition orders_table :: "nat \<Rightarrow> src_table" where
  "orders_table n = \<lparr>t_columns = [id_column], t_primary_keys = [''id''],
                     t_rows = replicate n [VInt 1]\<rparr>"

text \<open>A source holding only \<open>orders\<close>, no failing call, a clock that advances by one second.\<close>

definition reliable_env :: "nat \<Rightarrow> env" where
  "reliable_env n = \<lparr>mysql_tables = [''orders'' \<mapsto> orders_table n],
                     fails = (\<lambda>op. False), clock = (\<lambda>k. real k)\<rparr>"

text \<open>The same source, with the count query of the target failing.\<close>

definition verify_fails_env :: "nat \<Rightarrow> env" where
  "verify_fails_env n = \<lparr>mysql_tables = [''orders'' \<mapsto> orders_table n],
                         fails = (\<lambda>op. op = OpChCount ''orders''), clock = (\<lambda>k. real k)\<rparr>"

text \<open>A target in which \<open>orders\<close> exists with \<open>k\<close> rows.\<close>

definition world_with_target :: "nat \<Rightarrow> world" where
  "world_with_target k = \<lparr>ch_tables = [''orders'' \<mapsto> replicate k [VInt 1]], inserts = [],
                          tick = 0, logs = []\<rparr>"

definition empty_world :: world where
  "empty_world = \<lparr>ch_tables = Map.empty, inserts = [], tick = 0, logs = []\<rparr>"

definition orders_entry :: table_config where
  "orders_entry = \<lparr>tc_mysql_table = Some ''orders'', tc_ch_table = Some ''orders'',
                   tc_batch_size = None, tc_verify = None\<rparr>"

definition missing_entry :: table_config where
  "missing_entry = \<lparr>tc_mysql_table = Some ''missing'', tc_ch_table = Some ''missing'',
                    tc_batch_size = None, tc_verify = None\<rparr>"

definition invalid_entry :: table_config where
  "invalid_entry = \<lparr>tc_mysql_table = None, tc_ch_table = Some ''orphan'',
                    tc_batch_size = None, tc_verify = None\<rparr>"

text \<open>The configuration with the defaults of the source, over a given list of tables.\<close>

definition default_config :: "table_config list \<Rightarrow> config" where
  "default_config ts = \<lparr>tables = ts, default_batch_size = 10000, default_verify = True,
                        drop_table_before_create = True, skip_empty_tables = True,
                        continue_on_error = False, mysql_database = ''shop'',
                        clickhouse_database = ''analytics''\<rparr>"

definition sample_datetime :: py_datetime where
  "sample_datetime = \<lparr>dt_year = 2024, dt_month = 3, dt_day = 9, dt_hour = 7, dt_minute = 5,
                       dt_second = 59\<rparr>"

definition early_datetime :: py_datetime where
  "early_datetime = \<lparr>dt_year = 999, dt_month = 1, dt_day = 2, dt_hour = 3, dt_minute = 4,
                      dt_second = 5\<rparr>"

text \<open>
  A source table \<open>events\<close> with an integer, a datetime, a date and a time column, and a
  reliable source holding it.
\<close>

definition events_table :: src_table where
  "events_table =
     \<lparr>t_columns = [id_column,
                   \<lparr>col_Field = ''created'', col_Type = ''datetime'', col_Null = ''YES''\<rparr>,
                   \<lparr>col_Field = ''day'', col_Type = ''date'', col_Null = ''YES''\<rparr>,
                   \<lparr>col_Field = ''opens'', col_Type = ''time'', col_Null = ''YES''\<rparr>],
      t_primary_keys = [''id''],
      t_rows = [[VInt 1, VDatetime sample_datetime, VDate 2024 3 9, VTimedelta 32400],
                [VInt 2, VDatetime early_datetime, VNone, VNone],
                [VInt 3, VNone, VDate 2024 3 10, VStr ''x'']]\<rparr>"

definition events_env :: env where
  "events_env = \<lparr>mysql_tables = [''events'' \<mapsto> events_table],
                  fails = (\<lambda>op. False), clock = (\<lambda>k. real k)\<rparr>"

definition events_world :: world where
  "events_world = \<lparr>ch_tables = [''events'' \<mapsto> []], inserts = [], tick = 0, logs = []\<rparr>"

section \<open>TypeMapper is total\<close>

lemma split_on_not_Nil: "split_on c s \<noteq> []"
  by (induction s) (auto split: list.splits)

lemma split_on_two: "c \<in> set s \<Longrightarrow> 2 \<le> length (split_on c s)"
  by (induction s) (auto split: list.splits simp: split_on_not_Nil Suc_le_eq)

lemma py_index_0: "xs \<noteq> [] \<Longrightarrow> py_index xs 0 = Inr (hd xs)"
  by (cases xs) (simp_all add: py_index_def)

lemma py_index_1: "2 \<le> length xs \<Longrightarrow> py_index xs (Suc 0) = Inr (xs ! 1)"
  by (simp add: py_index_def)

lemma type_mapping_decimal: "map_of TYPE_MAPPING ''decimal'' = Some ''Decimal''"
  by (simp add: TYPE_MAPPING_def)

lemma type_mapping_get_fallback:
  "map_of TYPE_MAPPING k = None \<Longrightarrow> type_mapping_get k = ''String''"
  by (simp add: type_mapping_get_def)

lemma convert_total:
  "\<exists>ch_type. convert_mysql_type_to_clickhouse mysql_type is_nullable = Inr ch_type"
  by (simp add: convert_mysql_type_to_clickhouse_def Let_def py_index_0 py_index_1
        split_on_not_Nil split_on_two)

lemma convert_fallback:
  assumes "split_on CHR ''('' mysql_type = b # rest"
    and "map_of TYPE_MAPPING (str_lower b) = None"
  shows "convert_mysql_type_to_clickhouse mysql_type is_nullable =
         Inr (if is_nullable = ''YES'' then ''Nullable(String)'' else ''String'')"
proof -
  have nd: "str_lower b \<noteq> ''decimal''"
    using assms(2) type_mapping_decimal by auto
  have g: "type_mapping_get (str_lower b) = ''String''"
    using assms(2) by (simp add: type_mapping_get_def)
  show ?thesis
    using nd by (simp add: convert_mysql_type_to_clickhouse_def Let_def assms(1) py_index_def g)
qed

text \<open>
  Claim C8.  For every source type string and nullable flag the type mapping returns a
  target type and never raises: none of its three subscripts can be out of range.  When
  the base keyword (the lower-cased text before the first parenthesis) is not a key of
  \<open>TYPE_MAPPING\<close>, the lookup yields the text fallback \<open>String\<close> and this is the type
  returned, inside \<open>Nullable(...)\<close> when the flag is \<open>YES\<close> as for every other type.
  Equal inputs give equal outputs.
\<close>

theorem convert_mysql_type_to_clickhouse_total:
  "(\<exists>ch_type. convert_mysql_type_to_clickhouse mysql_type is_nullable = Inr ch_type) \<and>
   (\<forall>b rest. split_on CHR ''('' mysql_type = b # rest \<and>
              map_of TYPE_MAPPING (str_lower b) = None \<longrightarrow>
      type_mapping_get (str_lower b) = ''String'' \<and>
      convert_mysql_type_to_clickhouse mysql_type is_nullable =
        Inr (if is_nullable = ''YES'' then ''Nullable(String)'' else ''String'')) \<and>
   (\<forall>t n. t = mysql_type \<and> n = is_nullable \<longrightarrow>
      convert_mysql_type_to_clickhouse t n =
      convert_mysql_type_to_clickhouse mysql_type is_nullable)"
  using convert_total convert_fallback type_mapping_get_fallback by blast

theorem convert_mysql_type_to_clickhouse_total_witness:
  "split_on CHR ''('' ''GEOMETRY'' = [''GEOMETRY''] \<and>
   map_of TYPE_MAPPING (str_lower ''GEOMETRY'') = None \<and>
   convert_mysql_type_to_clickhouse ''GEOMETRY'' ''YES'' = Inr ''Nullable(String)'' \<and>
   (\<exists>ch_type. convert_mysql_type_to_clickhouse ''bigint(20) unsigned'' ''NO'' = Inr ch_type)"
proof -
  have s: "split_on CHR ''('' ''GEOMETRY'' = [''GEOMETRY'']" by simp
  have m: "map_of TYPE_MAPPING (str_lower ''GEOMETRY'') = None"
    by (simp add: TYPE_MAPPING_def str_lower_def char_lower_def)
  from convert_mysql_type_to_clickhouse_total [of "''GEOMETRY''" "''YES''"] s m
  have "convert_mysql_type_to_clickhouse ''GEOMETRY'' ''YES'' = Inr ''Nullable(String)''"
    by simp
  moreover from convert_mysql_type_to_clickhouse_total [of "''bigint(20) unsigned''" "''NO''"]
  have "\<exists>ch_type. convert_mysql_type_to_clickhouse ''bigint(20) unsigned'' ''NO'' = Inr ch_type"
    by blast
  ultimately show ?thesis using s m by blast
qed

section \<open>Verification compares the two counts\<close>

text \<open>
  Claim C6.  Whenever the two count queries of \<open>verify_migration\<close> deliver the counts
  \<open>m\<close> (source) and \<open>c\<close> (target), the function returns normally, and its result is true
  if and only if \<open>m = c\<close>.  On a mismatch it logs the absolute difference; in both cases
  the target tables are left as they were and no insert is issued.
\<close>

theorem verify_migration_iff:
  assumes "mysql_count ev (OpVerifyCount mysql_tbl) mysql_tbl = Inr m"
    and "ch_count ev ch_tbl w = Inr c"
  shows "\<exists>w'. verify_migration ev mysql_tbl ch_tbl w = (Inr (m = c), w') \<and>
           ch_tables w' = ch_tables w \<and> inserts w' = inserts w \<and>
           (m \<noteq> c \<longrightarrow> logs w' = logs w @ [LogVerify (int m) (int c),
                                         LogVerifyFailed \<bar>int m - int c\<bar>])"
  using assms by (simp add: verify_migration_def Let_def log_add_def)

theorem verify_migration_iff_witness:
  "mysql_count (reliable_env 100) (OpVerifyCount ''orders'') ''orders'' = Inr 100 \<and>
   ch_count (reliable_env 100) ''orders'' (world_with_target 97) = Inr 97 \<and>
   (\<exists>w'. verify_migration (reliable_env 100) ''orders'' ''orders'' (world_with_target 97) =
            (Inr False, w') \<and>
          ch_tables w' = ch_tables (world_with_target 97) \<and>
          logs w' = [LogVerify 100 97, LogVerifyFailed 3])"
proof -
  have h1: "mysql_count (reliable_env 100) (OpVerifyCount ''orders'') ''orders'' = Inr 100"
    by (simp add: mysql_count_def reliable_env_def orders_table_def)
  have h2: "ch_count (reliable_env 100) ''orders'' (world_with_target 97) = Inr 97"
    by (simp add: ch_count_def reliable_env_def world_with_target_def)
  have l: "logs (world_with_target 97) = []"
    by (simp add: world_with_target_def)
  from verify_migration_iff [OF h1 h2] l h1 h2 show ?thesis
    by auto
qed

section \<open>Rows are converted positionally\<close>

lemma convert_row_from_eq:
  "i + length cols \<le> length row \<Longrightarrow>
   convert_row_from i cols row = Inr (map normalize_value (take (length cols) (drop i row)))"
proof (induction cols arbitrary: i)
  case Nil
  then show ?case by simp
next
  case (Cons c cs)
  then have lt: "i < length row" and rest: "Suc i + length cs \<le> length row"
    by simp_all
  have split: "take (Suc (length cs)) (drop i row) = row ! i # take (length cs) (drop (Suc i) row)"
    using lt by (simp add: take_Suc_conv_app_nth Cons_nth_drop_Suc [symmetric])
  show ?case
    using Cons.IH [OF rest] lt by (simp add: py_index_def split)
qed

lemma convert_row_eq:
  "length column_names \<le> length row \<Longrightarrow>
   convert_row column_names row = Inr (map normalize_value (take (length column_names) row))"
  by (simp add: convert_row_def convert_row_from_eq)

lemma convert_row_full:
  "length row = length column_names \<Longrightarrow> convert_row column_names row = Inr (map normalize_value row)"
  by (simp add: convert_row_eq)

text \<open>
  Claim C9, as stated, fails on the code: the loop tests \<open>isinstance(value, datetime)\<close>,
  which a date-only value (a \<open>datetime.date\<close>) does not satisfy.  Such a value is a
  temporal value, is not turned into a string, and reaches the batch that is written.
\<close>

theorem convert_row_datetime_only_counterexample:
  "is_temporal (VDate 2024 1 15) \<and> \<not> is_string (VDate 2024 1 15) \<and>
   convert_row [''created''] [VDate 2024 1 15] = Inr [VDate 2024 1 15] \<and>
   inserts (snd (stream_loop (reliable_env 1) ''orders'' ''orders'' [''created''] 10000
                   [[VDate 2024 1 15]] 0 0 [] (world_with_target 0))) =
     [(''orders'', [''created''], [[VDate 2024 1 15]])]"
  by (simp add: convert_row_def py_index_def flush_last_def ch_insert_def time_time_def
        reliable_env_def world_with_target_def Let_def)

section \<open>The per-table procedure\<close>

text \<open>The definitions a concrete transfer unfolds to.\<close>

lemmas transfer_eval =
  transfer_steps_def get_mysql_table_structure_def get_primary_key_def
  drop_table_if_exists_def generate_clickhouse_ddl_def create_clickhouse_table_def
  convert_mysql_type_to_clickhouse_def py_index_def str_lower_def char_lower_def
  type_mapping_get_def TYPE_MAPPING_def
  migrate_data_def mysql_count_def mysql_probe_def mysql_stream_def
  convert_row_def flush_last_def ch_insert_def time_time_def log_add_def Let_def

lemmas example_defs =
  default_config_def reliable_env_def verify_fails_env_def orders_table_def id_column_def
  world_with_target_def empty_world_def orders_entry_def missing_entry_def invalid_entry_def

text \<open>
  Claim C7.  When steps 1 to 4 of \<open>migrate_table\<close> complete, verification is requested
  and \<open>verify_migration\<close> returns false, \<open>migrate_table\<close> returns a result with status
  \<open>success\<close>, \<open>verified = False\<close> and no error, whatever the continue-on-error policy is.
\<close>

theorem verification_mismatch_not_fatal:
  assumes "transfer_steps cfg ev mysql_tbl ch_tbl
             (case batch_size of None \<Rightarrow> default_batch_size cfg | Some b \<Rightarrow> b)
             (snd (time_time ev w)) = (Inr (migrated_rows, avg_spd), w1)"
    and "(case verify of None \<Rightarrow> default_verify cfg | Some v \<Rightarrow> v)"
    and "verify_migration ev mysql_tbl ch_tbl w1 = (Inr False, w2)"
  shows "\<exists>r w3. migrate_table cfg ev mysql_tbl ch_tbl batch_size verify w = (Inr r, w3) \<and>
           status r = ''success'' \<and> verified r = False \<and> error r = None \<and>
           rows r = migrated_rows \<and> speed r = avg_spd"
  using assms
  by (simp add: migrate_table_def migrate_table_attempt_def time_time_def Let_def split_def)

theorem verification_mismatch_not_fatal_witness:
  "(\<exists>w1 w2.
     transfer_steps ((default_config [])\<lparr>drop_table_before_create := False\<rparr>) (reliable_env 2)
        ''orders'' ''orders'' 10000 (snd (time_time (reliable_env 2) (world_with_target 1))) =
       (Inr (2, 1), w1) \<and>
     default_verify ((default_config [])\<lparr>drop_table_before_create := False\<rparr>) \<and>
     verify_migration (reliable_env 2) ''orders'' ''orders'' w1 = (Inr False, w2)) \<and>
   (\<exists>r w3. migrate_table ((default_config [])\<lparr>drop_table_before_create := False\<rparr>) (reliable_env 2)
              ''orders'' ''orders'' None None (world_with_target 1) = (Inr r, w3) \<and>
            status r = ''success'' \<and> verified r = False \<and> rows r = 2)"
proof -
  let ?cfg = "(default_config [])\<lparr>drop_table_before_create := False\<rparr>"
  let ?w1 = "\<lparr>ch_tables = [''orders'' \<mapsto> [[VInt 1], [VInt 1], [VInt 1]]],
              inserts = [(''orders'', [''id''], [[VInt 1], [VInt 1]])], tick = 4, logs = []\<rparr>"
  have t: "transfer_steps ?cfg (reliable_env 2) ''orders'' ''orders''
             (case None of None \<Rightarrow> default_batch_size ?cfg | Some b \<Rightarrow> b)
             (snd (time_time (reliable_env 2) (world_with_target 1))) = (Inr (2, 1), ?w1)"
    by (simp add: transfer_eval example_defs numeral_2_eq_2)
  have d: "case None of None \<Rightarrow> default_verify ?cfg | Some v \<Rightarrow> v"
    by (simp add: default_config_def)
  have v: "verify_migration (reliable_env 2) ''orders'' ''orders'' ?w1 =
             (Inr False, log_add (LogVerifyFailed 1) (log_add (LogVerify 2 3) ?w1))"
    by (simp add: verify_migration_def mysql_count_def ch_count_def Let_def
          reliable_env_def orders_table_def)
  from verification_mismatch_not_fatal [OF t d v] t d v show ?thesis
    by (auto simp: default_config_def)
qed

text \<open>
  Claim C10.  When steps 1 to 4 of \<open>migrate_table\<close> complete, verification is requested
  and \<open>verify_migration\<close> raises \<open>e\<close>, the \<open>table_result\<close> dict the handler leaves has
  status \<open>failed\<close>, the error text of \<open>e\<close>, the time elapsed since the start of the table,
  and the \<open>rows\<close> and \<open>speed\<close> of the completed transfer.  With continue-on-error set this
  dict is what \<open>migrate_table\<close> returns (and \<open>migrate_all_tables\<close> records); without it
  the exception is raised again.
\<close>

theorem verify_raises_keeps_rows:
  assumes "transfer_steps cfg ev mysql_tbl ch_tbl
             (case batch_size of None \<Rightarrow> default_batch_size cfg | Some b \<Rightarrow> b)
             (snd (time_time ev w)) = (Inr (migrated_rows, avg_spd), w1)"
    and "(case verify of None \<Rightarrow> default_verify cfg | Some v \<Rightarrow> v)"
    and "verify_migration ev mysql_tbl ch_tbl w1 = (Inl e, w2)"
  shows "\<exists>r w3. migrate_table_attempt cfg ev mysql_tbl ch_tbl batch_size verify w =
                   ((Some e, r), w3) \<and>
           status r = ''failed'' \<and> error r = Some (str_of_error e) \<and>
           time_used r = clock ev (tick w2) - clock ev (tick w) \<and>
           rows r = migrated_rows \<and> speed r = avg_spd \<and>
           (continue_on_error cfg \<longrightarrow>
              migrate_table cfg ev mysql_tbl ch_tbl batch_size verify w = (Inr r, w3)) \<and>
           (\<not> continue_on_error cfg \<longrightarrow>
              migrate_table cfg ev mysql_tbl ch_tbl batch_size verify w = (Inl e, w3))"
  using assms
  by (simp add: migrate_table_def migrate_table_attempt_def migrate_table_except_def
        time_time_def Let_def split_def)

theorem verify_raises_keeps_rows_witness:
  "(\<exists>w1 w2 e.
     transfer_steps ((default_config [])\<lparr>continue_on_error := True\<rparr>) (verify_fails_env 2)
        ''orders'' ''orders'' 10000 (snd (time_time (verify_fails_env 2) empty_world)) =
       (Inr (2, 1), w1) \<and>
     default_verify ((default_config [])\<lparr>continue_on_error := True\<rparr>) \<and>
     verify_migration (verify_fails_env 2) ''orders'' ''orders'' w1 = (Inl e, w2)) \<and>
   (\<exists>r w3. migrate_table ((default_config [])\<lparr>continue_on_error := True\<rparr>) (verify_fails_env 2)
              ''orders'' ''orders'' None None empty_world = (Inr r, w3) \<and>
            status r = ''failed'' \<and> error r = Some ''ClickHouse COUNT failed'' \<and>
            time_used r = 4 \<and> rows r = 2 \<and> speed r = 1)"
proof -
  let ?cfg = "(default_config [])\<lparr>continue_on_error := True\<rparr>"
  let ?w1 = "\<lparr>ch_tables = [''orders'' \<mapsto> [[VInt 1], [VInt 1]]],
              inserts = [(''orders'', [''id''], [[VInt 1], [VInt 1]])], tick = 4, logs = []\<rparr>"
  have t: "transfer_steps ?cfg (verify_fails_env 2) ''orders'' ''orders''
             (case None of None \<Rightarrow> default_batch_size ?cfg | Some b \<Rightarrow> b)
             (snd (time_time (verify_fails_env 2) empty_world)) = (Inr (2, 1), ?w1)"
    by (simp add: transfer_eval example_defs numeral_2_eq_2)
  have d: "case None of None \<Rightarrow> default_verify ?cfg | Some v \<Rightarrow> v"
    by (simp add: default_config_def)
  have v: "verify_migration (verify_fails_env 2) ''orders'' ''orders'' ?w1 =
             (Inl (DbError ''ClickHouse COUNT failed''), ?w1)"
    by (simp add: verify_migration_def mysql_count_def ch_count_def Let_def
          verify_fails_env_def orders_table_def)
  have c: "continue_on_error ?cfg"
    by (simp add: default_config_def)
  have k: "clock (verify_fails_env 2) (tick ?w1) - clock (verify_fails_env 2) (tick empty_world) = 4"
    by (simp add: verify_fails_env_def empty_world_def)
  from verify_raises_keeps_rows [OF t d v] c k t d v show ?thesis
    by (auto simp: default_config_def)
qed

section \<open>Runs over several tables\<close>

lemma transfer_steps_introspection_fails:
  assumes "get_mysql_table_structure ev m = Inl e \<or>
           (\<exists>cols. get_mysql_table_structure ev m = Inr cols \<and> get_primary_key ev m = Inl e)"
  shows "transfer_steps cfg ev m c bs w = (Inl e, w)"
  using assms by (auto simp: transfer_steps_def)

lemma migrate_table_introspection_fails:
  assumes "get_mysql_table_structure ev m = Inl e \<or>
           (\<exists>cols. get_mysql_table_structure ev m = Inr cols \<and> get_primary_key ev m = Inl e)"
    and "continue_on_error cfg"
  shows "migrate_table cfg ev m c b v w =
           (Inr \<lparr>mysql_table = m, ch_table = c, rows = 0,
                  time_used = clock ev (Suc (tick w)) - clock ev (tick w), speed = 0,
                  status = ''failed'', verified = False, error = Some (str_of_error e)\<rparr>,
            log_add (LogTableFailed (str_of_error e)) (w\<lparr>tick := Suc (Suc (tick w))\<rparr>))"
  using assms(2)
  by (simp add: migrate_table_def migrate_table_attempt_def migrate_table_except_def
        transfer_steps_introspection_fails [OF assms(1)] time_time_def Let_def)

text \<open>
  Claim C5.  A run over two valid table mappings with continue-on-error set, in which
  \<open>migrate_table\<close> succeeds on the first table and the introspection of the second
  (its \<open>DESCRIBE\<close> or its primary-key query) raises \<open>e\<close>, ends normally with
  \<open>total_tables = 2\<close>, \<open>success_tables = 1\<close>, \<open>failed_tables = 1\<close>, and the result
  recorded for the second table has status \<open>failed\<close>, the error text of \<open>e\<close> and
  \<open>rows = 0\<close>.
\<close>

theorem two_tables_second_introspection_fails:
  assumes "tables cfg = [tc1, tc2]"
    and "continue_on_error cfg"
    and "valid_names tc1 = Some (m1, c1)"
    and "valid_names tc2 = Some (m2, c2)"
    and "migrate_table cfg ev m1 c1 (tc_batch_size tc1) (tc_verify tc1)
           (world (snd (run_start cfg ev (init_migration w)))) = (Inr r1, w1)"
    and "status r1 = ''success''"
    and "get_mysql_table_structure ev m2 = Inl e \<or>
         (\<exists>cols. get_mysql_table_structure ev m2 = Inr cols \<and> get_primary_key ev m2 = Inl e)"
  shows "\<exists>m' r2. migrate_all_tables cfg ev (init_migration w) = (Inr (), m') \<and>
           total_tables (migration_stats m') = 2 \<and>
           success_tables (migration_stats m') = 1 \<and>
           failed_tables (migration_stats m') = 1 \<and>
           table_details (migration_stats m') = [r1, r2] \<and>
           mysql_table r2 = m2 \<and> status r2 = ''failed'' \<and>
           error r2 = Some (str_of_error e) \<and> error r2 \<noteq> None \<and> rows r2 = 0"
proof -
  obtain t0 ms where rs: "run_start cfg ev (init_migration w) = (t0, ms)"
    by (cases "run_start cfg ev (init_migration w)")
  have st: "migration_stats ms = init_stats\<lparr>total_tables := 2\<rparr>"
    using rs assms(1) by (auto simp: run_start_def init_migration_def time_time_def Let_def)
  have mt1: "migrate_table cfg ev m1 c1 (tc_batch_size tc1) (tc_verify tc1) (world ms) = (Inr r1, w1)"
    using assms(5) rs by simp
  show ?thesis
    using assms(1-4,6) rs st mt1
    by (simp add: migrate_all_tables_def Let_def migrate_table_introspection_fails [OF assms(7) assms(2)]
          run_end_def time_time_def init_stats_def log_add_def)
qed

theorem two_tables_second_introspection_fails_witness:
  "(\<exists>r1 w1 e.
      tables ((default_config [orders_entry, missing_entry])\<lparr>continue_on_error := True\<rparr>) =
        [orders_entry, missing_entry] \<and>
      valid_names orders_entry = Some (''orders'', ''orders'') \<and>
      valid_names missing_entry = Some (''missing'', ''missing'') \<and>
      migrate_table ((default_config [orders_entry, missing_entry])\<lparr>continue_on_error := True\<rparr>)
        (reliable_env 3) ''orders'' ''orders'' None None
        (world (snd (run_start ((default_config [orders_entry, missing_entry])\<lparr>continue_on_error := True\<rparr>)
                       (reliable_env 3) (init_migration empty_world)))) = (Inr r1, w1) \<and>
      status r1 = ''success'' \<and>
      get_mysql_table_structure (reliable_env 3) ''missing'' = Inl e) \<and>
   (\<exists>m' r1 r2.
      migrate_all_tables ((default_config [orders_entry, missing_entry])\<lparr>continue_on_error := True\<rparr>)
        (reliable_env 3) (init_migration empty_world) = (Inr (), m') \<and>
      total_tables (migration_stats m') = 2 \<and>
      success_tables (migration_stats m') = 1 \<and>
      failed_tables (migration_stats m') = 1 \<and>
      table_details (migration_stats m') = [r1, r2] \<and>
      status r2 = ''failed'' \<and> error r2 = Some ''Table does not exist'' \<and> rows r2 = 0)"
proof -
  let ?cfg = "(default_config [orders_entry, missing_entry])\<lparr>continue_on_error := True\<rparr>"
  let ?r1 = "\<lparr>mysql_table = ''orders'', ch_table = ''orders'', rows = 3, time_used = 4,
              speed = 3 / 2, status = ''success'', verified = True, error = None\<rparr>"
  let ?w1 = "\<lparr>ch_tables = [''orders'' \<mapsto> [[VInt 1], [VInt 1], [VInt 1]]],
              inserts = [(''orders'', [''id''], [[VInt 1], [VInt 1], [VInt 1]])], tick = 6,
              logs = [LogVerify 3 3, LogVerifyPassed]\<rparr>"
  have a1: "tables ?cfg = [orders_entry, missing_entry]"
    by (simp add: default_config_def)
  have a2: "continue_on_error ?cfg"
    by (simp add: default_config_def)
  have a3: "valid_names orders_entry = Some (''orders'', ''orders'')"
    by (simp add: valid_names_def orders_entry_def)
  have a4: "valid_names missing_entry = Some (''missing'', ''missing'')"
    by (simp add: valid_names_def missing_entry_def)
  have a5: "migrate_table ?cfg (reliable_env 3) ''orders'' ''orders''
              (tc_batch_size orders_entry) (tc_verify orders_entry)
              (world (snd (run_start ?cfg (reliable_env 3) (init_migration empty_world)))) =
            (Inr ?r1, ?w1)"
    by (simp add: migrate_table_def migrate_table_attempt_def verify_migration_def ch_count_def
          run_start_def init_migration_def transfer_eval example_defs numeral_3_eq_3)
  have a6: "status ?r1 = ''success''"
    by simp
  have a7: "get_mysql_table_structure (reliable_env 3) ''missing'' =
              Inl (DbError ''Table does not exist'') \<or>
            (\<exists>cols. get_mysql_table_structure (reliable_env 3) ''missing'' = Inr cols \<and>
               get_primary_key (reliable_env 3) ''missing'' = Inl (DbError ''Table does not exist''))"
    by (simp add: get_mysql_table_structure_def reliable_env_def)
  have b: "tc_batch_size orders_entry = None" "tc_verify orders_entry = None"
    by (simp_all add: orders_entry_def)
  from two_tables_second_introspection_fails [OF a1 a2 a3 a4 a5 a6 a7] a1 a3 a4 a5 a7 b
  show ?thesis
    by (auto simp: get_mysql_table_structure_def reliable_env_def)
qed

lemma tables_loop_total_tables:
  "tables_loop cfg ev n idx ts m = (r, m') \<Longrightarrow>
   total_tables (migration_stats m') = total_tables (migration_stats m)"
proof (induction ts arbitrary: idx m)
  case Nil
  then show ?case by simp
next
  case (Cons tc ts)
  then show ?case
    by (auto simp: Let_def split: option.splits prod.splits sum.splits if_splits)
qed

lemma tables_loop_attempted_le:
  "tables_loop cfg ev n idx ts m = (r, m') \<Longrightarrow> attempted m' \<le> attempted m + length ts"
proof (induction ts arbitrary: idx m)
  case Nil
  then show ?case by simp
next
  case (Cons tc ts)
  then show ?case
    by (fastforce simp: Let_def split: option.splits prod.splits sum.splits if_splits)
qed

lemma tables_loop_attempted_eq:
  "tables_loop cfg ev n idx ts m = (Inr (), m') \<Longrightarrow>
   attempted m' = attempted m + length (filter (\<lambda>tc. valid_names tc \<noteq> None) ts)"
proof (induction ts arbitrary: idx m)
  case Nil
  then show ?case by simp
next
  case (Cons tc ts)
  then show ?case
    by (fastforce simp: Let_def split: option.splits prod.splits sum.splits if_splits)
qed

lemma length_filter_eq_iff:
  "length (filter P xs) = length xs \<longleftrightarrow> (\<forall>x \<in> set xs. P x)"
proof (induction xs)
  case Nil
  then show ?case by simp
next
  case (Cons x xs)
  have "length (filter P xs) \<le> length xs" by simp
  then have "length (filter P xs) \<noteq> Suc (length xs)" by arith
  with Cons show ?case by simp
qed

lemma run_start_stats:
  "migration_stats (snd (run_start cfg ev (init_migration w))) =
     init_stats\<lparr>total_tables := length (tables cfg)\<rparr>"
  by (simp add: run_start_def init_migration_def time_time_def Let_def)

lemma run_end_counts:
  "success_tables (migration_stats (run_end ev t0 m)) = success_tables (migration_stats m) \<and>
   failed_tables (migration_stats (run_end ev t0 m)) = failed_tables (migration_stats m) \<and>
   total_tables (migration_stats (run_end ev t0 m)) = total_tables (migration_stats m)"
  by (simp add: run_end_def time_time_def Let_def)

text \<open>
  Claim C3, amended.  In every run started on a fresh orchestrator,
  \<open>success_tables + failed_tables \<le> total_tables\<close> holds after every iteration of the
  loop over the table mappings (the state after \<open>k\<close> iterations is the loop run on the
  first \<open>k\<close> entries) and at the end of the run, aborted or not.  When the run is not
  aborted, \<open>total_tables\<close> is the length of the configured list, invalid entries
  included, and \<open>success_tables + failed_tables\<close> is the number of valid entries: it
  equals \<open>total_tables\<close> exactly when no entry of the list is invalid.
\<close>

theorem run_statistics_invariant:
  assumes "migrate_all_tables cfg ev (init_migration w) = (r, m')"
  shows "(\<forall>k mk rk.
            tables_loop cfg ev (length (tables cfg)) 1 (take k (tables cfg))
              (snd (run_start cfg ev (init_migration w))) = (rk, mk) \<longrightarrow>
            attempted mk \<le> total_tables (migration_stats mk)) \<and>
         attempted m' \<le> total_tables (migration_stats m') \<and>
         (r = Inr () \<longrightarrow>
            total_tables (migration_stats m') = length (tables cfg) \<and>
            attempted m' = length (filter (\<lambda>tc. valid_names tc \<noteq> None) (tables cfg)) \<and>
            (attempted m' = total_tables (migration_stats m') \<longleftrightarrow>
               (\<forall>tc \<in> set (tables cfg). valid_names tc \<noteq> None)))"
proof -
  obtain t0 m0 where rs: "run_start cfg ev (init_migration w) = (t0, m0)"
    by (cases "run_start cfg ev (init_migration w)")
  have m0: "snd (run_start cfg ev (init_migration w)) = m0"
    by (simp add: rs)
  have z: "attempted m0 = 0" "total_tables (migration_stats m0) = length (tables cfg)"
    using run_start_stats [of cfg ev w] by (simp_all add: m0 init_stats_def)
  have prefix: "attempted mk \<le> total_tables (migration_stats mk)"
    if "tables_loop cfg ev (length (tables cfg)) 1 (take k (tables cfg)) m0 = (rk, mk)"
    for k mk rk
  proof -
    have "attempted mk \<le> attempted m0 + length (take k (tables cfg))"
      by (rule tables_loop_attempted_le [OF that])
    moreover have "total_tables (migration_stats mk) = length (tables cfg)"
      using tables_loop_total_tables [OF that] z(2) by simp
    ultimately show ?thesis using z(1) by simp
  qed
  show ?thesis
  proof (cases "tables cfg = []")
    case True
    with assms have "m' = (init_migration w)\<lparr>world := log_add LogNoTables w\<rparr>"
      by (simp add: migrate_all_tables_def init_migration_def)
    then have "attempted m' = 0" "total_tables (migration_stats m') = 0"
      by (simp_all add: init_migration_def init_stats_def)
    with True prefix show ?thesis by (simp add: m0)
  next
    case False
    obtain r2 m2 where lp: "tables_loop cfg ev (length (tables cfg)) 1 (tables cfg) m0 = (r2, m2)"
      by (cases "tables_loop cfg ev (length (tables cfg)) 1 (tables cfg) m0")
    have le2: "attempted m2 \<le> length (tables cfg)"
      using tables_loop_attempted_le [OF lp] z(1) by simp
    have tt2: "total_tables (migration_stats m2) = length (tables cfg)"
      using tables_loop_total_tables [OF lp] z(2) by simp
    show ?thesis
    proof (cases r2)
      case (Inl e)
      with assms False rs lp have "m' = m2" "r = Inl e"
        by (simp_all add: migrate_all_tables_def)
      with le2 tt2 prefix show ?thesis by (simp add: m0)
    next
      case (Inr u)
      with assms False rs lp have m': "m' = run_end ev t0 m2" and r: "r = Inr ()"
        by (simp_all add: migrate_all_tables_def)
      have eq2: "attempted m2 = length (filter (\<lambda>tc. valid_names tc \<noteq> None) (tables cfg))"
        using tables_loop_attempted_eq [of cfg ev _ 1 "tables cfg" m0 m2] lp Inr z(1) by simp
      have iff: "length (filter (\<lambda>tc. valid_names tc \<noteq> None) (tables cfg)) = length (tables cfg)
                 \<longleftrightarrow> (\<forall>tc \<in> set (tables cfg). valid_names tc \<noteq> None)"
        by (rule length_filter_eq_iff)
      from m' eq2 tt2 le2 iff prefix show ?thesis
        by (simp add: run_end_counts m0)
    qed
  qed
qed

lemmas run_eval =
  migrate_all_tables_def run_start_def run_end_def init_migration_def init_stats_def
  valid_names_def migrate_table_def migrate_table_attempt_def migrate_table_except_def
  verify_migration_def ch_count_def

theorem run_statistics_invariant_witness:
  "\<exists>r m'. migrate_all_tables (default_config [orders_entry, invalid_entry]) (reliable_env 3)
             (init_migration empty_world) = (r, m') \<and>
           r = Inr () \<and> attempted m' \<le> total_tables (migration_stats m') \<and>
           attempted m' = 1 \<and> total_tables (migration_stats m') = 2"
proof -
  let ?cfg = "default_config [orders_entry, invalid_entry]"
  obtain r m' where
    h: "migrate_all_tables ?cfg (reliable_env 3) (init_migration empty_world) = (r, m')"
    by (cases "migrate_all_tables ?cfg (reliable_env 3) (init_migration empty_world)")
  have "fst (migrate_all_tables ?cfg (reliable_env 3) (init_migration empty_world)) = Inr ()"
    by (simp add: run_eval transfer_eval example_defs numeral_3_eq_3)
  with h have r: "r = Inr ()" by simp
  have f: "length (filter (\<lambda>tc. valid_names tc \<noteq> None) (tables ?cfg)) = 1"
    by (simp add: default_config_def valid_names_def orders_entry_def invalid_entry_def)
  have l: "length (tables ?cfg) = 2"
    by (simp add: default_config_def)
  from run_statistics_invariant [OF h] r f l h show ?thesis
    by simp
qed

text \<open>
  Claim C3, as stated, fails on the code: \<open>total_tables\<close> is the length of the whole
  list, and an invalid entry is skipped without being counted as a success or a failure.
  A run over one valid and one invalid entry ends normally with
  \<open>success_tables + failed_tables = 1\<close> and \<open>total_tables = 2\<close>.
\<close>

theorem run_statistics_equality_counterexample:
  "fst (migrate_all_tables (default_config [orders_entry, invalid_entry]) (reliable_env 3)
          (init_migration empty_world)) = Inr () \<and>
   valid_names invalid_entry = None \<and>
   success_tables (migration_stats (snd (migrate_all_tables
      (default_config [orders_entry, invalid_entry]) (reliable_env 3)
      (init_migration empty_world)))) = 1 \<and>
   failed_tables (migration_stats (snd (migrate_all_tables
      (default_config [orders_entry, invalid_entry]) (reliable_env 3)
      (init_migration empty_world)))) = 0 \<and>
   total_tables (migration_stats (snd (migrate_all_tables
      (default_config [orders_entry, invalid_entry]) (reliable_env 3)
      (init_migration empty_world)))) = 2"
  by (simp add: run_eval transfer_eval example_defs numeral_3_eq_3)

section \<open>Failure notifications\<close>

lemma migrate_table_continue_returns:
  "continue_on_error cfg \<Longrightarrow> \<exists>r w'. migrate_table cfg ev m c b v w = (Inr r, w')"
  by (simp add: migrate_table_def split: prod.splits option.splits)

text \<open>
  With continue-on-error set, \<open>migrate_table\<close> never raises, so the handler of the loop,
  the only place that calls \<open>notify_failure\<close>, is never entered.
\<close>

lemma tables_loop_continue_notifications:
  "continue_on_error cfg \<Longrightarrow> tables_loop cfg ev n idx ts m = (r, m') \<Longrightarrow>
   notifications m' = notifications m \<and> r = Inr ()"
proof (induction ts arbitrary: idx m)
  case Nil
  then show ?case by simp
next
  case (Cons tc ts)
  show ?case
  proof (cases "valid_names tc")
    case None
    with Cons show ?thesis by fastforce
  next
    case (Some names)
    obtain mt ct where names: "names = (mt, ct)" by (cases names)
    from migrate_table_continue_returns [OF Cons.prems(1)]
    obtain tr w1 where mt: "migrate_table cfg ev mt ct (tc_batch_size tc) (tc_verify tc) (world m) =
                              (Inr tr, w1)"
      by blast
    from Cons.prems(2) Some names mt
    have "\<exists>m1. tables_loop cfg ev n (Suc idx) ts m1 = (r, m') \<and> notifications m1 = notifications m"
      by (fastforce simp: Let_def)
    with Cons.IH [OF Cons.prems(1)] show ?thesis by fastforce
  qed
qed

lemma continue_on_error_never_notifies_failure:
  assumes "continue_on_error cfg"
    and "migrate_all_tables cfg ev (init_migration w) = (r, m')"
  shows "NotifyFailure info \<notin> set (notifications m')"
proof (cases "tables cfg = []")
  case True
  with assms(2) show ?thesis
    by (auto simp: migrate_all_tables_def init_migration_def)
next
  case False
  obtain t0 m0 where rs: "run_start cfg ev (init_migration w) = (t0, m0)"
    by (cases "run_start cfg ev (init_migration w)")
  then have n0: "notifications m0 =
                   [NotifyStart (tables cfg) (mysql_database cfg) (clickhouse_database cfg)]"
    by (auto simp: run_start_def init_migration_def time_time_def Let_def)
  obtain r2 m2 where lp: "tables_loop cfg ev (length (tables cfg)) 1 (tables cfg) m0 = (r2, m2)"
    by (cases "tables_loop cfg ev (length (tables cfg)) 1 (tables cfg) m0")
  from tables_loop_continue_notifications [OF assms(1) lp]
  have n2: "notifications m2 = notifications m0" and r2: "r2 = Inr ()"
    by simp_all
  from assms(2) False rs lp r2 have "m' = run_end ev t0 m2"
    by (simp add: migrate_all_tables_def)
  then show ?thesis
    using n2 n0 by (auto simp: run_end_def time_time_def Let_def split: if_splits)
qed

text \<open>
  Claim C1 is right about what should happen and the code does not do it.  In a run with
  continue-on-error set whose only table fails in introspection, the table is counted as
  failed but the only notification is the start notification.  The same run without
  continue-on-error sends the failure notification with the table name, the error text
  and the progress counts.
\<close>

theorem failure_notification_missing:
  "fst (migrate_all_tables ((default_config [missing_entry])\<lparr>continue_on_error := True\<rparr>)
          (reliable_env 3) (init_migration empty_world)) = Inr () \<and>
   failed_tables (migration_stats (snd (migrate_all_tables
      ((default_config [missing_entry])\<lparr>continue_on_error := True\<rparr>)
      (reliable_env 3) (init_migration empty_world)))) = 1 \<and>
   notifications (snd (migrate_all_tables
      ((default_config [missing_entry])\<lparr>continue_on_error := True\<rparr>)
      (reliable_env 3) (init_migration empty_world))) =
     [NotifyStart [missing_entry] ''shop'' ''analytics''] \<and>
   notifications (snd (migrate_all_tables (default_config [missing_entry])
      (reliable_env 3) (init_migration empty_world))) =
     [NotifyStart [missing_entry] ''shop'' ''analytics'',
      NotifyFailure \<lparr>failed_table = ''missing'', error_message = ''Table does not exist'',
                     info_total_tables = 1, completed_tables = 0\<rparr>]"
  by (simp add: run_eval transfer_eval example_defs)

section \<open>The streaming transfer writes the rows in batches\<close>

declare chunks.simps [simp del]

lemma chunks_Nil: "chunks n [] = []"
  by (simp add: chunks.simps)

lemma chunks_step: "0 < n \<Longrightarrow> xs \<noteq> [] \<Longrightarrow> chunks n xs = take n xs # chunks n (drop n xs)"
  by (subst chunks.simps) simp

lemma chunks_short: "0 < n \<Longrightarrow> xs \<noteq> [] \<Longrightarrow> length xs < n \<Longrightarrow> chunks n xs = [xs]"
  by (simp add: chunks_step chunks_Nil)

lemma chunks_full: "0 < n \<Longrightarrow> length xs = n \<Longrightarrow> chunks n (xs @ ys) = xs # chunks n ys"
  by (cases "xs = []") (simp_all add: chunks_step)

lemma ch_insert_ok:
  assumes "\<not> fails ev (OpInsert ct (length (inserts w)))" and "ch_tables w ct = Some old"
  shows "ch_insert ev ct b cols w =
           (Inr (), w\<lparr>ch_tables := (ch_tables w)(ct \<mapsto> old @ b),
                      inserts := inserts w @ [(ct, cols, b)]\<rparr>)"
  using assms by (simp add: ch_insert_def)

lemma flush_last_batches:
  assumes "\<forall>op. \<not> fails ev op" and "0 < n" and "ch_tables w ct = Some old" and "length batch < n"
  shows "\<exists>w'. flush_last ev ct cols mig batch w = (Inr (mig + length batch), w') \<and>
           inserts w' = inserts w @ map (\<lambda>b. (ct, cols, b)) (chunks n batch) \<and>
           ch_tables w' ct = Some (old @ batch)"
proof (cases "batch = []")
  case True
  with assms show ?thesis by (simp add: flush_last_def chunks_Nil)
next
  case False
  with assms show ?thesis
    by (simp add: flush_last_def ch_insert_ok time_time_def chunks_short)
qed

text \<open>
  The loop, started with a batch that is not yet full, on rows that are not empty and as
  long as the column list, with no failing call and an existing target table: it returns
  the number of rows seen, and the writes it issues are the pending batch followed by the
  converted rows, cut into pieces of \<open>n\<close>.
\<close>

lemma stream_loop_batches:
  assumes "\<forall>op. \<not> fails ev op" and "0 < n"
    and "\<forall>r \<in> set rs. r \<noteq> [] \<and> length r = length cols"
    and "ch_tables w ct = Some old" and "length batch < n"
  shows "\<exists>w'. stream_loop ev mt ct cols (int n) rs i mig batch w =
                 (Inr (mig + length batch + length rs), w') \<and>
           inserts w' = inserts w @
             map (\<lambda>b. (ct, cols, b)) (chunks n (batch @ map (map normalize_value) rs)) \<and>
           ch_tables w' ct = Some (old @ batch @ map (map normalize_value) rs)"
  using assms(3-5)
proof (induction rs arbitrary: i mig batch w old)
  case Nil
  then show ?case
    using flush_last_batches [OF assms(1,2) Nil(2,3), of cols mig] assms(1) by simp
next
  case (Cons r rs)
  let ?cr = "map normalize_value r"
  let ?b1 = "batch @ [?cr]"
  have r: "r \<noteq> []" "convert_row cols r = Inr ?cr"
    using Cons.prems(1) by (simp_all add: convert_row_eq)
  have wf: "\<forall>r \<in> set rs. r \<noteq> [] \<and> length r = length cols"
    using Cons.prems(1) by simp
  show ?case
  proof (cases "n \<le> length ?b1")
    case True
    then have len: "length ?b1 = n" using Cons.prems(3) by simp
    let ?w2 = "w\<lparr>ch_tables := (ch_tables w)(ct \<mapsto> old @ ?b1),
                  inserts := inserts w @ [(ct, cols, ?b1)], tick := Suc (tick w)\<rparr>"
    have ex2: "ch_tables ?w2 ct = Some (old @ ?b1)" by simp
    have "length ([]::val list list) < n" using assms(2) by simp
    from Cons.IH [OF wf ex2 this, of "Suc i" "mig + length ?b1"]
    obtain w' where
      sl: "stream_loop ev mt ct cols (int n) rs (Suc i) (mig + length ?b1) [] ?w2 =
             (Inr (mig + length ?b1 + length rs), w')"
      and ins: "inserts w' = inserts ?w2 @
                  map (\<lambda>b. (ct, cols, b)) (chunks n (map (map normalize_value) rs))"
      and tab: "ch_tables w' ct = Some (old @ ?b1 @ map (map normalize_value) rs)"
      by auto
    have step: "stream_loop ev mt ct cols (int n) (r # rs) i mig batch w =
                stream_loop ev mt ct cols (int n) rs (Suc i) (mig + length ?b1) [] ?w2"
      using assms(1) r True Cons.prems(2)
      by (simp add: ch_insert_ok time_time_def Let_def)
    have ch: "chunks n (batch @ ?cr # map (map normalize_value) rs) =
                ?b1 # chunks n (map (map normalize_value) rs)"
      using chunks_full [OF assms(2) len, of "map (map normalize_value) rs"] by simp
    show ?thesis
      using sl ins tab by (simp add: step ch del: stream_loop.simps)
  next
    case False
    then have lt: "length ?b1 < n" by simp
    from Cons.IH [OF wf Cons.prems(2) lt, of "Suc i" mig]
    obtain w' where
      sl: "stream_loop ev mt ct cols (int n) rs (Suc i) mig ?b1 w =
             (Inr (mig + length ?b1 + length rs), w')"
      and ins: "inserts w' = inserts w @
                  map (\<lambda>b. (ct, cols, b)) (chunks n (?b1 @ map (map normalize_value) rs))"
      and tab: "ch_tables w' ct = Some (old @ ?b1 @ map (map normalize_value) rs)"
      by auto
    have step: "stream_loop ev mt ct cols (int n) (r # rs) i mig batch w =
                stream_loop ev mt ct cols (int n) rs (Suc i) mig ?b1 w"
      using assms(1) r False by (simp add: Let_def)
    show ?thesis
      using sl ins tab by (simp add: step del: stream_loop.simps)
  qed
qed

lemma migrate_data_batches:
  assumes nf: "\<forall>op. \<not> fails ev op" and n: "0 < n"
    and t: "mysql_tables ev mt = Some t" and ne: "t_rows t \<noteq> []"
    and wf: "\<forall>r \<in> set (t_rows t). r \<noteq> [] \<and> length r = length (t_columns t)"
    and ex: "ch_tables w ct = Some old"
  shows "\<exists>avg_spd w'. migrate_data cfg ev mt ct (int n) w = (Inr (length (t_rows t), avg_spd), w') \<and>
           inserts w' = inserts w @
             map (\<lambda>b. (ct, map col_Field (t_columns t), b))
                 (chunks n (map (map normalize_value) (t_rows t))) \<and>
           ch_tables w' ct = Some (old @ map (map normalize_value) (t_rows t))"
proof -
  let ?cols = "map col_Field (t_columns t)"
  let ?w1 = "w\<lparr>tick := Suc (tick w)\<rparr>"
  have wf': "\<forall>r \<in> set (t_rows t). r \<noteq> [] \<and> length r = length ?cols"
    using wf by simp
  have ex1: "ch_tables ?w1 ct = Some old"
    using ex by simp
  have "length ([]::val list list) < n" using n by simp
  from stream_loop_batches [OF nf n wf' ex1 this, of mt 0 0]
  obtain w2 where
    sl: "stream_loop ev mt ct ?cols (int n) (t_rows t) 0 0 [] ?w1 = (Inr (length (t_rows t)), w2)"
    and ins: "inserts w2 = inserts w @
                map (\<lambda>b. (ct, ?cols, b)) (chunks n (map (map normalize_value) (t_rows t)))"
    and tab: "ch_tables w2 ct = Some (old @ map (map normalize_value) (t_rows t))"
    by auto
  show ?thesis
    using nf n t ne sl ins tab
    by (simp add: migrate_data_def mysql_count_def mysql_probe_def mysql_stream_def
          time_time_def Let_def)
qed

text \<open>
  Claim C9, amended.  In every transfer of a table that has rows (each row as long as the
  column list, no failing call, an existing target table), the rows held in the batches
  and written to the target are the source rows in source order, each converted position
  by position: a datetime value (an instance of \<open>datetime.datetime\<close>) is replaced by the
  string \<open>strftime('%Y-%m-%d %H:%M:%S')\<close> gives for it, and every other value, date-only
  and time-only values included, is held unchanged.  The batches written are these
  converted rows cut into pieces of the batch size, and the target table ends up holding
  them after what it held before.
\<close>

theorem transfer_converts_rows_positionally:
  assumes "\<forall>op. \<not> fails ev op" and "0 < n"
    and "mysql_tables ev mysql_tbl = Some t" and "t_rows t \<noteq> []"
    and "\<forall>r \<in> set (t_rows t). r \<noteq> [] \<and> length r = length (t_columns t)"
    and "ch_tables w ch_tbl = Some old"
  shows "\<exists>avg_spd w'.
           migrate_data cfg ev mysql_tbl ch_tbl (int n) w =
             (Inr (length (t_rows t), avg_spd), w') \<and>
           inserts w' = inserts w @
             map (\<lambda>b. (ch_tbl, map col_Field (t_columns t), b))
               (chunks n
                 (map (map (\<lambda>v. case v of
                                  VDatetime d \<Rightarrow> VStr (strftime d)
                                | VNone \<Rightarrow> VNone | VInt k \<Rightarrow> VInt k | VStr s \<Rightarrow> VStr s
                                | VDate y m d \<Rightarrow> VDate y m d
                                | VTimedelta td \<Rightarrow> VTimedelta td))
                      (t_rows t))) \<and>
           ch_tables w' ch_tbl =
             Some (old @
               map (map (\<lambda>v. case v of
                                VDatetime d \<Rightarrow> VStr (strftime d)
                              | VNone \<Rightarrow> VNone | VInt k \<Rightarrow> VInt k | VStr s \<Rightarrow> VStr s
                              | VDate y m d \<Rightarrow> VDate y m d
                              | VTimedelta td \<Rightarrow> VTimedelta td))
                    (t_rows t))"
proof -
  have nv: "normalize_value =
              (\<lambda>v. case v of
                      VDatetime d \<Rightarrow> VStr (strftime d)
                    | VNone \<Rightarrow> VNone | VInt k \<Rightarrow> VInt k | VStr s \<Rightarrow> VStr s
                    | VDate y m d \<Rightarrow> VDate y m d
                    | VTimedelta td \<Rightarrow> VTimedelta td)"
  proof
    fix v
    show "normalize_value v =
            (case v of
               VDatetime d \<Rightarrow> VStr (strftime d)
             | VNone \<Rightarrow> VNone | VInt k \<Rightarrow> VInt k | VStr s \<Rightarrow> VStr s
             | VDate y m d \<Rightarrow> VDate y m d
             | VTimedelta td \<Rightarrow> VTimedelta td)"
      by (cases v) simp_all
  qed
  from migrate_data_batches [OF assms, of cfg] show ?thesis
    unfolding nv .
qed

theorem transfer_converts_rows_positionally_witness:
  "mysql_tables events_env ''events'' = Some events_table \<and>
   length (t_rows events_table) = 3 \<and>
   ch_tables events_world ''events'' = Some [] \<and>
   (\<exists>avg_spd w'.
      migrate_data (default_config []) events_env ''events'' ''events'' 2 events_world =
        (Inr (3, avg_spd), w') \<and>
      inserts w' =
        [(''events'', [''id'', ''created'', ''day'', ''opens''],
          [[VInt 1, VStr ''2024-03-09 07:05:59'', VDate 2024 3 9, VTimedelta 32400],
           [VInt 2, VStr ''999-01-02 03:04:05'', VNone, VNone]]),
         (''events'', [''id'', ''created'', ''day'', ''opens''],
          [[VInt 3, VNone, VDate 2024 3 10, VStr ''x'']])] \<and>
      ch_tables w' ''events'' =
        Some [[VInt 1, VStr ''2024-03-09 07:05:59'', VDate 2024 3 9, VTimedelta 32400],
              [VInt 2, VStr ''999-01-02 03:04:05'', VNone, VNone],
              [VInt 3, VNone, VDate 2024 3 10, VStr ''x'']])"
proof -
  have a1: "\<forall>op. \<not> fails events_env op"
    by (simp add: events_env_def)
  have a2: "0 < (2::nat)"
    by simp
  have a3: "mysql_tables events_env ''events'' = Some events_table"
    by (simp add: events_env_def)
  have a4: "t_rows events_table \<noteq> []"
    by (simp add: events_table_def)
  have a5: "\<forall>r \<in> set (t_rows events_table). r \<noteq> [] \<and> length r = length (t_columns events_table)"
    by (simp add: events_table_def)
  have a6: "ch_tables events_world ''events'' = Some []"
    by (simp add: events_world_def)
  have s1: "strftime sample_datetime = ''2024-03-09 07:05:59''"
    by (simp add: strftime_def sample_datetime_def pad2_def py_decimal.simps digit_char_def)
  have s2: "strftime early_datetime = ''999-01-02 03:04:05''"
    by (simp add: strftime_def early_datetime_def pad2_def py_decimal.simps digit_char_def)
  have c: "chunks 2 [x, y, z] = [[x, y], [z]]" for x y z :: "val list"
    by (simp add: chunks_step chunks_Nil)
  from transfer_converts_rows_positionally [OF a1 a2 a3 a4 a5 a6, of "default_config []"]
  show ?thesis
    using a3 a6
    by (simp add: events_table_def id_column_def events_world_def s1 s2 c numeral_3_eq_3)
qed

lemma chunks_25000:
  assumes "length xs = 25000"
  shows "chunks 10000 xs = [take 10000 xs, take 10000 (drop 10000 xs), drop 20000 xs]"
proof -
  have a: "xs \<noteq> []" using assms by auto
  have b: "drop 10000 xs \<noteq> []" using assms by auto
  have c: "drop 20000 xs \<noteq> []" using assms by auto
  have d: "length (drop 20000 xs) < 10000" using assms by simp
  have "chunks 10000 xs = take 10000 xs # chunks 10000 (drop 10000 xs)"
    using a by (simp add: chunks_step)
  also have "chunks 10000 (drop 10000 xs) =
             take 10000 (drop 10000 xs) # chunks 10000 (drop 10000 (drop 10000 xs))"
    using b by (simp add: chunks_step)
  also have "drop 10000 (drop 10000 xs) = drop 20000 xs"
    by simp
  also have "chunks 10000 (drop 20000 xs) = [drop 20000 xs]"
    using c d by (simp add: chunks_short)
  finally show ?thesis .
qed

text \<open>
  Claim C4.  For a source table of exactly 25000 rows (each row not empty and as long
  as the column list), an existing target table and no failing call, \<open>migrate_data\<close>
  with \<open>batch_size = 10000\<close> returns \<open>rows_transferred = 25000\<close> and issues exactly
  three bulk writes: two batches of 10000 rows and a last one of 5000 rows, which together
  are the converted rows in source order.
\<close>

theorem transfer_25000_rows_three_writes:
  assumes "\<forall>op. \<not> fails ev op"
    and "mysql_tables ev mysql_tbl = Some t"
    and "length (t_rows t) = 25000"
    and "\<forall>r \<in> set (t_rows t). r \<noteq> [] \<and> length r = length (t_columns t)"
    and "ch_tables w ch_tbl = Some old"
  shows "\<exists>avg_spd w' b1 b2 b3.
           migrate_data cfg ev mysql_tbl ch_tbl 10000 w = (Inr (25000, avg_spd), w') \<and>
           inserts w' = inserts w @
             [(ch_tbl, map col_Field (t_columns t), b1),
              (ch_tbl, map col_Field (t_columns t), b2),
              (ch_tbl, map col_Field (t_columns t), b3)] \<and>
           length b1 = 10000 \<and> length b2 = 10000 \<and> length b3 = 5000 \<and>
           b1 @ b2 @ b3 = map (map normalize_value) (t_rows t)"
proof -
  let ?xs = "map (map normalize_value) (t_rows t)"
  have ne: "t_rows t \<noteq> []" using assms(3) by auto
  have len: "length ?xs = 25000" using assms(3) by simp
  have n: "0 < (10000::nat)" by simp
  from migrate_data_batches [OF assms(1) n assms(2) ne assms(4,5), of cfg]
  obtain avg_spd w' where
    md: "migrate_data cfg ev mysql_tbl ch_tbl (int 10000) w = (Inr (length (t_rows t), avg_spd), w')"
    and ins: "inserts w' = inserts w @
                map (\<lambda>b. (ch_tbl, map col_Field (t_columns t), b)) (chunks 10000 ?xs)"
    by blast
  have cat: "take 10000 ?xs @ take 10000 (drop 10000 ?xs) @ drop 20000 ?xs = ?xs"
  proof -
    have "take 10000 (drop 10000 ?xs) @ drop 20000 ?xs = drop 10000 ?xs"
      using append_take_drop_id [of 10000 "drop 10000 ?xs"] by simp
    then show ?thesis
      using append_take_drop_id [of 10000 ?xs] by simp
  qed
  have l1: "length (take 10000 ?xs) = 10000" using len by simp
  have l2: "length (take 10000 (drop 10000 ?xs)) = 10000" using len by simp
  have l3: "length (drop 20000 ?xs) = 5000" using len by simp
  have md': "migrate_data cfg ev mysql_tbl ch_tbl 10000 w = (Inr (25000, avg_spd), w')"
    using md assms(3) by simp
  have ins': "inserts w' = inserts w @
             [(ch_tbl, map col_Field (t_columns t), take 10000 ?xs),
              (ch_tbl, map col_Field (t_columns t), take 10000 (drop 10000 ?xs)),
              (ch_tbl, map col_Field (t_columns t), drop 20000 ?xs)]"
    using ins by (simp only: chunks_25000 [OF len] list.map)
  from md' ins' l1 l2 l3 cat show ?thesis by blast
qed

theorem transfer_25000_rows_three_writes_witness:
  "mysql_tables (reliable_env 25000) ''orders'' = Some (orders_table 25000) \<and>
   length (t_rows (orders_table 25000)) = 25000 \<and>
   ch_tables (world_with_target 0) ''orders'' = Some [] \<and>
   (\<exists>avg_spd w' b1 b2 b3.
      migrate_data (default_config []) (reliable_env 25000) ''orders'' ''orders'' 10000
        (world_with_target 0) = (Inr (25000, avg_spd), w') \<and>
      inserts w' = [(''orders'', [''id''], b1), (''orders'', [''id''], b2), (''orders'', [''id''], b3)] \<and>
      length b1 = 10000 \<and> length b2 = 10000 \<and> length b3 = 5000)"
proof -
  have a1: "\<forall>op. \<not> fails (reliable_env 25000) op"
    by (simp add: reliable_env_def)
  have a2: "mysql_tables (reliable_env 25000) ''orders'' = Some (orders_table 25000)"
    by (simp add: reliable_env_def)
  have a3: "length (t_rows (orders_table 25000)) = 25000"
    by (simp add: orders_table_def)
  have a4: "\<forall>r \<in> set (t_rows (orders_table 25000)).
              r \<noteq> [] \<and> length r = length (t_columns (orders_table 25000))"
    by (simp add: orders_table_def)
  have a5: "ch_tables (world_with_target 0) ''orders'' = Some []"
    by (simp add: world_with_target_def)
  have c: "map col_Field (t_columns (orders_table 25000)) = [''id'']"
    by (simp add: orders_table_def id_column_def)
  have i: "inserts (world_with_target 0) = []"
    by (simp add: world_with_target_def)
  from transfer_25000_rows_three_writes [OF a1 a2 a3 a4 a5, of "default_config []"]
  show ?thesis
    unfolding c i using a2 a3 a5 by auto
qed

section \<open>Empty source tables\<close>

text \<open>
  On a source table without rows \<open>migrate_data\<close> never writes.  With skip-empty-tables
  set it returns \<open>(0, 0)\<close> when the count query succeeds; without it, it never returns
  normally: the probe \<open>fetchone()\<close> gives \<open>None\<close> and \<open>first_row.keys()\<close> raises.
\<close>

lemma migrate_data_empty_table:
  assumes "mysql_tables ev mt = Some t" and "t_rows t = []"
  shows "inserts (snd (migrate_data cfg ev mt ct bs w)) = inserts w \<and>
         (skip_empty_tables cfg \<and> \<not> fails ev (OpCount mt) \<longrightarrow>
            fst (migrate_data cfg ev mt ct bs w) = Inr (0, 0)) \<and>
         (\<not> skip_empty_tables cfg \<longrightarrow> (\<exists>e. fst (migrate_data cfg ev mt ct bs w) = Inl e))"
  using assms
  by (simp add: migrate_data_def mysql_count_def mysql_probe_def log_add_def)

text \<open>
  Claim C2 is right about what should happen and the code does not do it when
  skip-empty-tables is off.  On an empty source table, with the default batch size and no
  failing call, \<open>migrate_data\<close> raises \<open>AttributeError\<close> instead of returning \<open>(0, 0)\<close>;
  with skip-empty-tables on it returns \<open>(0, 0)\<close>.  Neither run writes to the target.
\<close>

theorem empty_table_without_skip_raises:
  "migrate_data ((default_config [])\<lparr>skip_empty_tables := False\<rparr>) (reliable_env 0)
     ''orders'' ''orders'' 10000 (world_with_target 0) =
     (Inl (AttributeError ''NoneType object has no attribute keys''), world_with_target 0) \<and>
   migrate_data (default_config []) (reliable_env 0)
     ''orders'' ''orders'' 10000 (world_with_target 0) =
     (Inr (0, 0), log_add LogEmptySkip (world_with_target 0)) \<and>
   inserts (log_add LogEmptySkip (world_with_target 0)) = []"
  by (simp add: migrate_data_def mysql_count_def mysql_probe_def log_add_def example_defs)

end
